theory Spec2Isabelle
  imports Main "HOL-Library.Word" "HOL-Library.Sublist"
begin

section \<open>JavaScript values used by the form\<close>

text \<open>
  A JavaScript string is a sequence of UTF-16 code units; \<open>length\<close>, \<open>trim\<close> and a
  regular expression without the \<open>u\<close> flag all work on code units.
\<close>

type_synonym code_unit = "16 word"
type_synonym jsstring = "code_unit list"

text \<open>A string literal of the source (all of them are ASCII).\<close>

definition js :: "string \<Rightarrow> jsstring" where
  "js s = map of_char s"

text \<open>
  ECMAScript's WhiteSpace and LineTerminator code points: the characters that
  \<open>String.prototype.trim\<close> strips and that the escape \<open>\s\<close> matches.
\<close>

definition isWhiteSpace :: "code_unit \<Rightarrow> bool" where
  "isWhiteSpace c \<longleftrightarrow> c \<in> set [0x0009, 0x000A, 0x000B, 0x000C, 0x000D, 0x0020, 0x00A0, 0x1680,
     0x2000, 0x2001, 0x2002, 0x2003, 0x2004, 0x2005, 0x2006, 0x2007, 0x2008, 0x2009, 0x200A,
     0x2028, 0x2029, 0x202F, 0x205F, 0x3000, 0xFEFF]"

definition trim :: "jsstring \<Rightarrow> jsstring" where
  "trim s = rev (dropWhile isWhiteSpace (rev (dropWhile isWhiteSpace s)))"

text \<open>Truthiness: the empty string, \<open>0\<close>, \<open>null\<close> and \<open>undefined\<close> are falsy.\<close>

definition truthy_string :: "jsstring \<Rightarrow> bool" where
  "truthy_string s \<longleftrightarrow> s \<noteq> []"

definition truthy_number :: "int \<Rightarrow> bool" where
  "truthy_number n \<longleftrightarrow> n \<noteq> 0"

definition truthy_rating :: "int option \<Rightarrow> bool" where
  "truthy_rating r = (case r of None \<Rightarrow> False | Some n \<Rightarrow> truthy_number n)"

text \<open>\<open>String(n)\<close> for a non-negative integer, as a template literal prints it.\<close>

definition digit :: "nat \<Rightarrow> code_unit" where
  "digit d = of_nat (48 + d)"

function toString :: "nat \<Rightarrow> jsstring" where
  "toString n = (if n < 10 then [digit n] else toString (n div 10) @ [digit (n mod 10)])"
  by pat_completeness auto
termination
  by (relation "measure (\<lambda>n. n)") auto

declare toString.simps [simp del]

section \<open>The regular expression of \<open>validateEmail\<close>\<close>

text \<open>
  The fragment of regular expressions that \<open>/^[^\s@]+@[^\s@]+\.[^\s@]+$/\<close> is written in:
  a sequence, anchored at both ends, of atoms (a literal character or a negated character
  class) that occur once or are quantified by \<open>+\<close>. \<open>regex_test\<close> is the backtracking
  matcher: a \<open>+\<close> takes one more character first and gives it back when the rest fails.
\<close>

datatype class_item = Chr code_unit | Space

datatype atom = Lit code_unit | NegClass "class_item list"

datatype quantifier = Once | OneOrMore

type_synonym regex = "(atom \<times> quantifier) list"

fun class_item_matches :: "class_item \<Rightarrow> code_unit \<Rightarrow> bool" where
  "class_item_matches (Chr d) c = (c = d)"
| "class_item_matches Space c = isWhiteSpace c"

fun atom_matches :: "atom \<Rightarrow> code_unit \<Rightarrow> bool" where
  "atom_matches (Lit d) c = (c = d)"
| "atom_matches (NegClass items) c = (\<not> list_ex (\<lambda>i. class_item_matches i c) items)"

fun regex_test :: "regex \<Rightarrow> jsstring \<Rightarrow> bool" where
  "regex_test [] s = (s = [])"
| "regex_test ((a, q) # r) [] = False"
| "regex_test ((a, Once) # r) (c # s) = (atom_matches a c \<and> regex_test r s)"
| "regex_test ((a, OneOrMore) # r) (c # s) =
     (atom_matches a c \<and> (regex_test ((a, OneOrMore) # r) s \<or> regex_test r s))"

definition at_sign :: code_unit where
  "at_sign = 0x40"

definition full_stop :: code_unit where
  "full_stop = 0x2E"

definition emailRegex :: regex where
  "emailRegex =
     [(NegClass [Space, Chr at_sign], OneOrMore), (Lit at_sign, Once),
      (NegClass [Space, Chr at_sign], OneOrMore), (Lit full_stop, Once),
      (NegClass [Space, Chr at_sign], OneOrMore)]"

definition validateEmail :: "jsstring \<Rightarrow> bool" where
  "validateEmail email = regex_test emailRegex email"

text \<open>
  The pattern as the specification words it: \<open>local-part@domain.tld\<close>, three non-empty
  parts without whitespace or \<open>@\<close>, joined by an \<open>@\<close> and a \<open>.\<close>.
\<close>

definition email_char :: "code_unit \<Rightarrow> bool" where
  "email_char c \<longleftrightarrow> \<not> isWhiteSpace c \<and> c \<noteq> at_sign"

definition spec_email_pattern :: "jsstring \<Rightarrow> bool" where
  "spec_email_pattern s \<longleftrightarrow>
     (\<exists>local_part domain tld.
        s = local_part @ [at_sign] @ domain @ [full_stop] @ tld \<and>
        local_part \<noteq> [] \<and> domain \<noteq> [] \<and> tld \<noteq> [] \<and>
        list_all email_char local_part \<and> list_all email_char domain \<and> list_all email_char tld)"

section \<open>The state of the component\<close>

text \<open>
  One field per \<open>useState\<close> cell that the logic reads. The cells \<open>hoveredRating\<close> and
  \<open>isDarkMode\<close> only choose colours and are left out. The second form component of
  the repository has the same cells except \<open>isFormValid\<close>: there the field keeps its
  initial value, and nothing reads it.
\<close>

record Touched =
  t_feedback :: bool
  t_name :: bool
  t_email :: bool

record FormErrors =
  e_feedback :: "jsstring option"
  e_name :: "jsstring option"
  e_email :: "jsstring option"

record FeedbackData =
  d_rating :: int
  d_feedback :: jsstring
  d_name :: jsstring
  d_email :: jsstring
  d_timestamp :: jsstring

record WebhookResponse =
  success :: bool
  message :: "jsstring option"

record State =
  selectedRating :: "int option"
  feedback :: jsstring
  name :: jsstring
  email :: jsstring
  isSubmitted :: bool
  isLoading :: bool
  errors :: FormErrors
  touched :: Touched
  submitError :: jsstring
  isFormValid :: bool

definition initialState :: State where
  "initialState =
     \<lparr>selectedRating = None, feedback = [], name = [], email = [], isSubmitted = False,
      isLoading = False, errors = \<lparr>e_feedback = None, e_name = None, e_email = None\<rparr>,
      touched = \<lparr>t_feedback = False, t_name = False, t_email = False\<rparr>,
      submitError = [], isFormValid = False\<rparr>"

text \<open>The two form components: the one the application mounts and its plainer sibling.\<close>

datatype component = SentimentAnalysisForm | Part000

record Emoji =
  emoji_value :: int
  emoji_label :: jsstring

definition emojis :: "Emoji list" where
  "emojis =
     [\<lparr>emoji_value = 1, emoji_label = js ''Unsatisfied''\<rparr>,
      \<lparr>emoji_value = 2, emoji_label = js ''Neutral''\<rparr>,
      \<lparr>emoji_value = 3, emoji_label = js ''Satisfied''\<rparr>]"

section \<open>Validation\<close>

definition newErrors :: "State \<Rightarrow> FormErrors" where
  "newErrors s =
     \<lparr>e_feedback =
        (if \<not> truthy_string (trim (feedback s)) then Some (js ''Feedback is required'')
         else if length (trim (feedback s)) < 10
           then Some (js ''Feedback must be at least 10 characters'')
         else None),
      e_name =
        (if \<not> truthy_string (trim (name s)) then Some (js ''Name is required'') else None),
      e_email =
        (if \<not> truthy_string (trim (email s)) then Some (js ''Email is required'')
         else if \<not> validateEmail (email s) then Some (js ''Please enter a valid email address'')
         else None)\<rparr>"

text \<open>\<open>Object.keys\<close> of the errors object: the fields that were assigned.\<close>

definition keys :: "FormErrors \<Rightarrow> string list" where
  "keys e =
     (if e_feedback e = None then [] else [''feedback'']) @
     (if e_name e = None then [] else [''name'']) @
     (if e_email e = None then [] else [''email''])"

text \<open>\<open>validateForm\<close> stores the errors it found and returns whether there were none.\<close>

definition validateForm :: "State \<Rightarrow> bool \<times> State" where
  "validateForm s = (length (keys (newErrors s)) = 0, s\<lparr>errors := newErrors s\<rparr>)"

definition checkFormValidity :: "State \<Rightarrow> bool" where
  "checkFormValidity s =
     (if \<not> truthy_rating (selectedRating s) \<or> \<not> truthy_string (trim (feedback s)) \<or>
         \<not> truthy_string (trim (name s)) \<or> \<not> truthy_string (trim (email s))
      then False
      else (let hasErrors = (length (trim (feedback s)) < 10 \<or> \<not> validateEmail (email s))
            in \<not> hasErrors))"

section \<open>The webhook client\<close>

text \<open>
  What \<open>fetch\<close> can do: fulfil with a response, or reject with a thrown value, which is an
  \<open>Error\<close> carrying a message or some other value. \<open>ok\<close> is the attribute of the Fetch
  standard: the status lies in 200 to 299. The response body is part of the response,
  so that what the client does with it can be stated.
\<close>

record Response =
  status :: nat
  statusText :: jsstring
  resp_body :: jsstring

definition ok :: "Response \<Rightarrow> bool" where
  "ok r \<longleftrightarrow> 200 \<le> status r \<and> status r \<le> 299"

datatype thrown = ErrorObj jsstring | OtherValue

datatype fetch_outcome = Fulfilled Response | Rejected thrown

text \<open>
  The request handed to \<open>fetch\<close>. The body is the payload itself: its serialisation by
  \<open>JSON.stringify\<close> is not modelled.
\<close>

record Request =
  req_url :: jsstring
  req_method :: string
  req_headers :: "(string \<times> string) list"
  req_body :: FeedbackData

text \<open>
  The endpoint: \<open>import.meta.env?.VITE_WEBHOOK_URL || ''\<close> in the mounted component,
  \<open>import.meta.env.VITE_WEBHOOK_URL\<close> in its sibling; \<open>None\<close> is \<open>undefined\<close>.
\<close>

definition WEBHOOK_URL :: "component \<Rightarrow> jsstring option \<Rightarrow> jsstring option" where
  "WEBHOOK_URL c env =
     (case c of
        SentimentAnalysisForm \<Rightarrow>
          (case env of None \<Rightarrow> Some [] | Some u \<Rightarrow> if truthy_string u then Some u else Some [])
      | Part000 \<Rightarrow> env)"

definition truthy_url :: "jsstring option \<Rightarrow> bool" where
  "truthy_url u = (case u of None \<Rightarrow> False | Some s \<Rightarrow> truthy_string s)"

definition configuration_failure :: WebhookResponse where
  "configuration_failure =
     \<lparr>success = False, message = Some (js ''Webhook configuration error. Please try again later.'')\<rparr>"

text \<open>
  \<open>submitToWebhook\<close> up to its \<open>await\<close>: either it returns at once (\<open>Inl\<close>), or it calls
  \<open>fetch\<close> with a request (\<open>Inr\<close>).
\<close>

definition submitToWebhook_start :: "jsstring option \<Rightarrow> FeedbackData \<Rightarrow> WebhookResponse + Request" where
  "submitToWebhook_start url data =
     (case url of
        None \<Rightarrow> Inl configuration_failure
      | Some u \<Rightarrow>
          if \<not> truthy_string u then Inl configuration_failure
          else Inr \<lparr>req_url = u, req_method = ''POST'',
                    req_headers = [(''Content-Type'', ''application/json'')], req_body = data\<rparr>)"

text \<open>The \<open>try\<close> block once \<open>fetch\<close> has settled: \<open>Inl\<close> is what it throws.\<close>

definition try_block :: "fetch_outcome \<Rightarrow> thrown + WebhookResponse" where
  "try_block out =
     (case out of
        Rejected e \<Rightarrow> Inl e
      | Fulfilled response \<Rightarrow>
          if \<not> ok response
          then Inl (ErrorObj (js ''Webhook error: '' @ toString (status response) @ js '' '' @
                              statusText response))
          else Inr \<lparr>success = True, message = Some (js ''Feedback submitted successfully'')\<rparr>)"

definition catch_block :: "thrown \<Rightarrow> WebhookResponse" where
  "catch_block error =
     \<lparr>success = False,
      message = Some (case error of ErrorObj m \<Rightarrow> m | OtherValue \<Rightarrow> js ''Failed to submit feedback'')\<rparr>"

definition submitToWebhook_settle :: "fetch_outcome \<Rightarrow> WebhookResponse" where
  "submitToWebhook_settle out = (case try_block out of Inl e \<Rightarrow> catch_block e | Inr r \<Rightarrow> r)"

text \<open>
  The whole operation, with \<open>fetch\<close> as a function of the request and the list of the
  network calls made so far threaded through.
\<close>

definition submitToWebhook ::
  "jsstring option \<Rightarrow> (Request \<Rightarrow> fetch_outcome) \<Rightarrow> FeedbackData \<Rightarrow> Request list \<Rightarrow>
     WebhookResponse \<times> Request list" where
  "submitToWebhook url fetch data net =
     (case submitToWebhook_start url data of
        Inl r \<Rightarrow> (r, net)
      | Inr req \<Rightarrow> (submitToWebhook_settle (fetch req), net @ [req]))"

section \<open>Event handlers\<close>

datatype form_field = Feedback | Name | Email

definition setTouched_field :: "form_field \<Rightarrow> Touched \<Rightarrow> Touched" where
  "setTouched_field f t =
     (case f of Feedback \<Rightarrow> t\<lparr>t_feedback := True\<rparr> | Name \<Rightarrow> t\<lparr>t_name := True\<rparr>
      | Email \<Rightarrow> t\<lparr>t_email := True\<rparr>)"

definition handleBlur :: "form_field \<Rightarrow> State \<Rightarrow> State" where
  "handleBlur f s = snd (validateForm (s\<lparr>touched := setTouched_field f (touched s)\<rparr>))"

text \<open>
  \<open>handleSubmit\<close> up to its \<open>await\<close>: the state it leaves and the payload it hands to
  \<open>submitToWebhook\<close>, if any. \<open>now\<close> is \<open>new Date().toISOString()\<close>.
\<close>

definition handleSubmit_start :: "jsstring \<Rightarrow> State \<Rightarrow> State \<times> FeedbackData option" where
  "handleSubmit_start now s =
     (let (valid, s1) =
            validateForm (s\<lparr>touched := \<lparr>t_feedback = True, t_name = True, t_email = True\<rparr>\<rparr>)
      in case selectedRating s of
           None \<Rightarrow> (s1, None)
         | Some r \<Rightarrow>
             if valid \<and> truthy_number r
             then (s1\<lparr>isLoading := True, submitError := []\<rparr>,
                   Some \<lparr>d_rating = r, d_feedback = trim (feedback s), d_name = trim (name s),
                         d_email = trim (email s), d_timestamp = now\<rparr>)
             else (s1, None))"

text \<open>
  \<open>handleSubmit\<close> after the \<open>await\<close>: \<open>Inr\<close> is the result \<open>submitToWebhook\<close> resolved
  with, \<open>Inl\<close> a value it rejected with.
\<close>

definition handleSubmit_resume :: "thrown + WebhookResponse \<Rightarrow> State \<Rightarrow> State" where
  "handleSubmit_resume awaited s =
     (let s1 =
        (case awaited of
           Inr result \<Rightarrow>
             if success result then s\<lparr>isSubmitted := True\<rparr>
             else s\<lparr>submitError :=
                      (case message result of
                         None \<Rightarrow> js ''Failed to submit feedback''
                       | Some m \<Rightarrow> if truthy_string m then m else js ''Failed to submit feedback'')\<rparr>
         | Inl error \<Rightarrow> s\<lparr>submitError := js ''An unexpected error occurred. Please try again.''\<rparr>)
      in s1\<lparr>isLoading := False\<rparr>)"

text \<open>
  \<open>handleReset\<close>; the call \<open>setIsFormValid(false)\<close> exists only in the mounted component.
\<close>

definition handleReset :: "component \<Rightarrow> State \<Rightarrow> State" where
  "handleReset c s =
     (let s1 = s\<lparr>selectedRating := None, feedback := [], name := [], email := [],
                  isSubmitted := False,
                  errors := \<lparr>e_feedback = None, e_name = None, e_email = None\<rparr>,
                  submitError := []\<rparr>;
          s2 = (case c of SentimentAnalysisForm \<Rightarrow> s1\<lparr>isFormValid := False\<rparr> | Part000 \<Rightarrow> s1)
      in s2\<lparr>touched := \<lparr>t_feedback = False, t_name = False, t_email = False\<rparr>\<rparr>)"

text \<open>
  The effect with the dependencies \<open>[selectedRating, feedback, name, email]\<close>: after a
  render in which one of them has changed, \<open>isFormValid\<close> is recomputed.
\<close>

definition useEffect_validity :: "State \<Rightarrow> State \<Rightarrow> State" where
  "useEffect_validity prev s =
     (if selectedRating s \<noteq> selectedRating prev \<or> feedback s \<noteq> feedback prev \<or>
         name s \<noteq> name prev \<or> email s \<noteq> email prev
      then s\<lparr>isFormValid := checkFormValidity s\<rparr> else s)"

text \<open>What runs after a render: the effect above in the mounted component, nothing in its sibling.\<close>

definition afterRender :: "component \<Rightarrow> State \<Rightarrow> State \<Rightarrow> State" where
  "afterRender c prev s =
     (case c of SentimentAnalysisForm \<Rightarrow> useEffect_validity prev s | Part000 \<Rightarrow> s)"

section \<open>What is rendered\<close>

text \<open>
  When \<open>isSubmitted\<close> holds the component returns the thank-you card and nothing of the
  form; otherwise each section is guarded by the conjunction written in the JSX.
\<close>

definition thankYouVisible :: "State \<Rightarrow> bool" where
  "thankYouVisible s = isSubmitted s"

definition ratingPickerVisible :: "State \<Rightarrow> bool" where
  "ratingPickerVisible s = (\<not> isSubmitted s)"

definition feedbackVisible :: "State \<Rightarrow> bool" where
  "feedbackVisible s = (\<not> isSubmitted s \<and> truthy_rating (selectedRating s))"

definition contactVisible :: "State \<Rightarrow> bool" where
  "contactVisible s =
     (\<not> isSubmitted s \<and> truthy_rating (selectedRating s) \<and> truthy_string (trim (feedback s)))"

definition submitVisible :: "State \<Rightarrow> bool" where
  "submitVisible s =
     (\<not> isSubmitted s \<and> truthy_rating (selectedRating s) \<and> truthy_string (trim (feedback s)) \<and>
      truthy_string (trim (name s)) \<and> truthy_string (trim (email s)))"

text \<open>The \<open>disabled\<close> attribute of the submit button, which differs between the two.\<close>

definition submitDisabled :: "component \<Rightarrow> State \<Rightarrow> bool" where
  "submitDisabled c s =
     (case c of SentimentAnalysisForm \<Rightarrow> isLoading s \<or> \<not> isFormValid s | Part000 \<Rightarrow> isLoading s)"

definition submitEnabled :: "component \<Rightarrow> State \<Rightarrow> bool" where
  "submitEnabled c s = (submitVisible s \<and> \<not> submitDisabled c s)"

definition fieldVisible :: "form_field \<Rightarrow> State \<Rightarrow> bool" where
  "fieldVisible f s = (case f of Feedback \<Rightarrow> feedbackVisible s | _ \<Rightarrow> contactVisible s)"

section \<open>The component as a machine driven by events\<close>

text \<open>
  The world is the component's state, the network calls made so far, and the payloads
  of the webhook calls that have not settled yet. An event is a user action on an element
  or the settling of the oldest pending \<open>fetch\<close>. An action on an element that is not
  rendered, or on a disabled button, does not reach its handler. After each event the
  state is rendered and the effects run, before the next event is handled. With no endpoint configured the webhook
  client returns without waiting for anything, so the submission finishes within the
  click.
\<close>

record World =
  form :: State
  sent :: "Request list"
  pending :: "FeedbackData list"

definition initialWorld :: World where
  "initialWorld = \<lparr>form = initialState, sent = [], pending = []\<rparr>"

datatype event =
    ClickEmoji nat
  | ChangeFeedback jsstring
  | ChangeName jsstring
  | ChangeEmail jsstring
  | Blur form_field
  | ClickSubmit jsstring
  | FetchSettled fetch_outcome
  | ClickReset

definition clickSubmit :: "component \<Rightarrow> jsstring option \<Rightarrow> jsstring \<Rightarrow> World \<Rightarrow> World" where
  "clickSubmit c env now w =
     (case handleSubmit_start now (form w) of
        (s1, None) \<Rightarrow> w\<lparr>form := s1\<rparr>
      | (s1, Some data) \<Rightarrow>
          (case submitToWebhook_start (WEBHOOK_URL c env) data of
             Inl result \<Rightarrow> w\<lparr>form := handleSubmit_resume (Inr result) s1\<rparr>
           | Inr req \<Rightarrow> w\<lparr>form := s1, sent := sent w @ [req], pending := pending w @ [data]\<rparr>))"

definition fetchSettled :: "fetch_outcome \<Rightarrow> World \<Rightarrow> World" where
  "fetchSettled out w =
     (case pending w of
        [] \<Rightarrow> w
      | data # rest \<Rightarrow>
          w\<lparr>form := handleSubmit_resume (Inr (submitToWebhook_settle out)) (form w),
            pending := rest\<rparr>)"

definition dispatch :: "component \<Rightarrow> jsstring option \<Rightarrow> World \<Rightarrow> event \<Rightarrow> World" where
  "dispatch c env w ev =
     (let s = form w in
      case ev of
        ClickEmoji i \<Rightarrow>
          if ratingPickerVisible s \<and> i < length emojis
          then w\<lparr>form := s\<lparr>selectedRating := Some (emoji_value (emojis ! i))\<rparr>\<rparr> else w
      | ChangeFeedback v \<Rightarrow> if feedbackVisible s then w\<lparr>form := s\<lparr>feedback := v\<rparr>\<rparr> else w
      | ChangeName v \<Rightarrow> if contactVisible s then w\<lparr>form := s\<lparr>name := v\<rparr>\<rparr> else w
      | ChangeEmail v \<Rightarrow> if contactVisible s then w\<lparr>form := s\<lparr>email := v\<rparr>\<rparr> else w
      | Blur f \<Rightarrow> if fieldVisible f s then w\<lparr>form := handleBlur f s\<rparr> else w
      | ClickSubmit now \<Rightarrow> if submitEnabled c s then clickSubmit c env now w else w
      | FetchSettled out \<Rightarrow> fetchSettled out w
      | ClickReset \<Rightarrow> if thankYouVisible s then w\<lparr>form := handleReset c s\<rparr> else w)"

definition step :: "component \<Rightarrow> jsstring option \<Rightarrow> World \<Rightarrow> event \<Rightarrow> World" where
  "step c env w ev =
     (let w1 = dispatch c env w ev in w1\<lparr>form := afterRender c (form w) (form w1)\<rparr>)"

definition run :: "component \<Rightarrow> jsstring option \<Rightarrow> event list \<Rightarrow> World" where
  "run c env evs = foldl (step c env) initialWorld evs"

section \<open>Predicates used in the statements\<close>

text \<open>The picker only ever stores the value of one of the three emojis.\<close>

definition rating_ok :: "State \<Rightarrow> bool" where
  "rating_ok s \<longleftrightarrow> selectedRating s = None \<or> selectedRating s = Some 1 \<or>
     selectedRating s = Some 2 \<or> selectedRating s = Some 3"

text \<open>
  Between two events \<open>isFormValid\<close> holds what \<open>checkFormValidity\<close> computes; in the
  sibling nothing ever writes the field.
\<close>

definition settled :: "component \<Rightarrow> State \<Rightarrow> bool" where
  "settled c s =
     (case c of SentimentAnalysisForm \<Rightarrow> isFormValid s = checkFormValidity s
      | Part000 \<Rightarrow> isFormValid s = False)"

text \<open>
  The loading flag is set exactly while a webhook call is pending, there is at most one,
  none on the thank-you screen, and a call is only ever made to a configured endpoint.
\<close>

definition one_in_flight :: "component \<Rightarrow> jsstring option \<Rightarrow> World \<Rightarrow> bool" where
  "one_in_flight c env w \<longleftrightarrow>
     isLoading (form w) = (pending w \<noteq> []) \<and>
     length (pending w) \<le> 1 \<and>
     (isSubmitted (form w) \<longrightarrow> pending w = []) \<and>
     (pending w \<noteq> [] \<longrightarrow> truthy_url (WEBHOOK_URL c env)) \<and>
     (sent w \<noteq> [] \<longrightarrow> truthy_url (WEBHOOK_URL c env))"

definition rated_in_flight :: "World \<Rightarrow> bool" where
  "rated_in_flight w \<longleftrightarrow> (pending w \<noteq> [] \<longrightarrow> truthy_rating (selectedRating (form w)))"

text \<open>The condition \<open>validateForm() && selectedRating\<close> of \<open>handleSubmit\<close>.\<close>

definition passes :: "State \<Rightarrow> bool" where
  "passes s \<longleftrightarrow> length (keys (newErrors s)) = 0 \<and> truthy_rating (selectedRating s)"

section \<open>Concrete inputs\<close>

text \<open>The submission of the specification's example, and variations of it.\<close>

definition endpoint :: jsstring where
  "endpoint = js ''https://hooks.example/feedback''"

definition clock :: jsstring where
  "clock = js ''2024-05-17T09:30:00.000Z''"

definition valid_entry :: "event list" where
  "valid_entry =
     [ClickEmoji 2, ChangeFeedback (js ''Great service, very helpful''),
      ChangeName (js ''Acme Inc''), ChangeEmail (js ''a@acme.com'')]"

definition short_entry :: "event list" where
  "short_entry =
     [ClickEmoji 2, ChangeFeedback (js ''Too short''),
      ChangeName (js ''Acme Inc''), ChangeEmail (js ''a@acme.com'')]"

definition filled :: "component \<Rightarrow> State" where
  "filled c =
     \<lparr>selectedRating = Some 3, feedback = js ''Great service, very helpful'',
      name = js ''Acme Inc'', email = js ''a@acme.com'', isSubmitted = False, isLoading = False,
      errors = \<lparr>e_feedback = None, e_name = None, e_email = None\<rparr>,
      touched = \<lparr>t_feedback = False, t_name = False, t_email = False\<rparr>,
      submitError = [], isFormValid = (c = SentimentAnalysisForm)\<rparr>"

definition padded :: State where
  "padded =
     (filled SentimentAnalysisForm)
       \<lparr>feedback := js ''  Great service, very helpful '', name := js '' Acme Inc''\<rparr>"

definition padded_email :: State where
  "padded_email = (filled SentimentAnalysisForm)\<lparr>email := js '' a@acme.com''\<rparr>"

definition server_error :: Response where
  "server_error = \<lparr>status = 500, statusText = js ''Internal Server Error'', resp_body = js ''oops''\<rparr>"

definition accepted :: Response where
  "accepted = \<lparr>status = 200, statusText = js ''OK'', resp_body = []\<rparr>"

definition payload :: FeedbackData where
  "payload =
     \<lparr>d_rating = 3, d_feedback = js ''Great service, very helpful'', d_name = js ''Acme Inc'',
      d_email = js ''a@acme.com'', d_timestamp = clock\<rparr>"

definition request :: Request where
  "request =
     \<lparr>req_url = endpoint, req_method = ''POST'',
      req_headers = [(''Content-Type'', ''application/json'')], req_body = payload\<rparr>"

definition in_flight :: "component \<Rightarrow> World" where
  "in_flight c =
     \<lparr>form = (filled c)\<lparr>touched := \<lparr>t_feedback = True, t_name = True, t_email = True\<rparr>,
                        isLoading := True\<rparr>,
      sent = [request], pending = [payload]\<rparr>"

definition thanked :: "component \<Rightarrow> World" where
  "thanked c =
     \<lparr>form = (filled c)\<lparr>touched := \<lparr>t_feedback = True, t_name = True, t_email = True\<rparr>,
                        isSubmitted := True\<rparr>,
      sent = [request], pending = []\<rparr>"

section \<open>The matcher against the specification's pattern\<close>

lemma once_match:
  "regex_test ((a, Once) # r) s \<longleftrightarrow> (\<exists>c q. s = c # q \<and> atom_matches a c \<and> regex_test r q)"
  by (cases s) auto

text \<open>A \<open>+\<close> consumes a non-empty prefix of matching characters, whatever the backtracking order.\<close>

lemma plus_match:
  "regex_test ((a, OneOrMore) # r) s \<longleftrightarrow>
     (\<exists>p q. s = p @ q \<and> p \<noteq> [] \<and> list_all (atom_matches a) p \<and> regex_test r q)"
proof (induction s)
  case Nil
  show ?case by simp
next
  case (Cons c s)
  show ?case
  proof
    assume "regex_test ((a, OneOrMore) # r) (c # s)"
    then have c: "atom_matches a c"
      and rest: "regex_test ((a, OneOrMore) # r) s \<or> regex_test r s"
      by simp_all
    from rest show "\<exists>p q. c # s = p @ q \<and> p \<noteq> [] \<and> list_all (atom_matches a) p \<and> regex_test r q"
    proof
      assume "regex_test ((a, OneOrMore) # r) s"
      with Cons.IH obtain p q where "s = p @ q" "list_all (atom_matches a) p" "regex_test r q"
        by blast
      with c have "c # s = (c # p) @ q \<and> c # p \<noteq> [] \<and> list_all (atom_matches a) (c # p) \<and>
          regex_test r q"
        by simp
      then show ?thesis by blast
    next
      assume "regex_test r s"
      with c have "c # s = [c] @ s \<and> [c] \<noteq> [] \<and> list_all (atom_matches a) [c] \<and> regex_test r s"
        by simp
      then show ?thesis by blast
    qed
  next
    assume "\<exists>p q. c # s = p @ q \<and> p \<noteq> [] \<and> list_all (atom_matches a) p \<and> regex_test r q"
    then obtain p q where pq: "c # s = p @ q" "p \<noteq> []" "list_all (atom_matches a) p"
      "regex_test r q"
      by blast
    then obtain p' where p: "p = c # p'" by (cases p) auto
    with pq have s: "s = p' @ q" and c: "atom_matches a c" and p': "list_all (atom_matches a) p'"
      by simp_all
    show "regex_test ((a, OneOrMore) # r) (c # s)"
    proof (cases "p' = []")
      case True
      with s pq c show ?thesis by simp
    next
      case False
      with s p' pq Cons.IH have "regex_test ((a, OneOrMore) # r) s" by blast
      with c show ?thesis by simp
    qed
  qed
qed

lemma email_class: "atom_matches (NegClass [Space, Chr at_sign]) c = email_char c"
  by (simp add: email_char_def)

lemma validateEmail_spec: "validateEmail s \<longleftrightarrow> spec_email_pattern s"
proof
  assume "validateEmail s"
  then obtain l q1 where 1: "s = l @ q1" "l \<noteq> []" "list_all email_char l"
    "regex_test [(Lit at_sign, Once), (NegClass [Space, Chr at_sign], OneOrMore),
       (Lit full_stop, Once), (NegClass [Space, Chr at_sign], OneOrMore)] q1"
    unfolding validateEmail_def emailRegex_def plus_match [of _ "(Lit at_sign, Once) # _"] email_class
    by blast
  from 1(4) obtain q2 where 2: "q1 = at_sign # q2"
    "regex_test [(NegClass [Space, Chr at_sign], OneOrMore), (Lit full_stop, Once),
       (NegClass [Space, Chr at_sign], OneOrMore)] q2"
    unfolding once_match by auto
  from 2(2) obtain d q3 where 3: "q2 = d @ q3" "d \<noteq> []" "list_all email_char d"
    "regex_test [(Lit full_stop, Once), (NegClass [Space, Chr at_sign], OneOrMore)] q3"
    unfolding plus_match [of _ "(Lit full_stop, Once) # _"] email_class by blast
  from 3(4) obtain q4 where 4: "q3 = full_stop # q4"
    "regex_test [(NegClass [Space, Chr at_sign], OneOrMore)] q4"
    unfolding once_match by auto
  from 4(2) have 5: "q4 \<noteq> []" "list_all email_char q4"
    unfolding plus_match [of _ "[]"] email_class by auto
  from 1 2 3 4 5 show "spec_email_pattern s"
    unfolding spec_email_pattern_def by auto
next
  assume "spec_email_pattern s"
  then obtain l d t where s: "s = l @ [at_sign] @ d @ [full_stop] @ t"
    and ne: "l \<noteq> []" "d \<noteq> []" "t \<noteq> []"
    and cs: "list_all email_char l" "list_all email_char d" "list_all email_char t"
    unfolding spec_email_pattern_def by blast
  from ne(3) cs(3) have "regex_test [(NegClass [Space, Chr at_sign], OneOrMore)] t"
    unfolding plus_match [of _ "[]"] email_class by simp
  then have "regex_test [(Lit full_stop, Once), (NegClass [Space, Chr at_sign], OneOrMore)]
      (full_stop # t)"
    by simp
  with ne(2) cs(2) have "regex_test [(NegClass [Space, Chr at_sign], OneOrMore),
      (Lit full_stop, Once), (NegClass [Space, Chr at_sign], OneOrMore)] (d @ full_stop # t)"
    unfolding plus_match [of _ "(Lit full_stop, Once) # _"] email_class by blast
  then have "regex_test [(Lit at_sign, Once), (NegClass [Space, Chr at_sign], OneOrMore),
      (Lit full_stop, Once), (NegClass [Space, Chr at_sign], OneOrMore)]
      (at_sign # d @ full_stop # t)"
    by simp
  with ne(1) cs(1) have "regex_test emailRegex (l @ at_sign # d @ full_stop # t)"
    unfolding emailRegex_def plus_match [of _ "(Lit at_sign, Once) # _"] email_class by blast
  with s show "validateEmail s" by (simp add: validateEmail_def)
qed

text \<open>An address that matches has no whitespace at either end, so trimming leaves it alone.\<close>

lemma trim_id:
  assumes "s \<noteq> []" "\<not> isWhiteSpace (hd s)" "\<not> isWhiteSpace (last s)"
  shows "trim s = s"
proof -
  from assms(1,2) have "dropWhile isWhiteSpace s = s" by (cases s) simp_all
  moreover from assms(1,3) have "dropWhile isWhiteSpace (rev s) = rev s"
    by (cases s rule: rev_cases) simp_all
  ultimately show ?thesis by (simp add: trim_def)
qed

lemma validateEmail_trim:
  assumes "validateEmail e"
  shows "trim e = e"
proof -
  from assms obtain l d t where e: "e = l @ [at_sign] @ d @ [full_stop] @ t"
    and ne: "l \<noteq> []" "t \<noteq> []" and cs: "list_all email_char l" "list_all email_char t"
    unfolding validateEmail_spec spec_email_pattern_def by blast
  from ne(1) cs(1) have "\<not> isWhiteSpace (hd l)"
    by (cases l) (simp_all add: email_char_def)
  with ne(1) e have front: "\<not> isWhiteSpace (hd e)" by simp
  from ne(2) cs(2) have "\<not> isWhiteSpace (last t)"
    by (cases t rule: rev_cases) (simp_all add: email_char_def)
  with ne(2) e have "\<not> isWhiteSpace (last e)" by simp
  with front e show ?thesis by (intro trim_id) simp_all
qed

section \<open>Validation and the handlers, field by field\<close>

lemma validation_messages_differ:
  "js ''Email is required'' \<noteq> js ''Please enter a valid email address''"
  "js ''Feedback is required'' \<noteq> js ''Feedback must be at least 10 characters''"
  by (simp_all add: js_def)

lemma validateForm_fst:
  "fst (validateForm s) \<longleftrightarrow>
     e_feedback (newErrors s) = None \<and> e_name (newErrors s) = None \<and> e_email (newErrors s) = None"
  by (simp add: validateForm_def keys_def)

lemma newErrors_none:
  "e_feedback (newErrors s) = None \<longleftrightarrow> trim (feedback s) \<noteq> [] \<and> 10 \<le> length (trim (feedback s))"
  "e_name (newErrors s) = None \<longleftrightarrow> trim (name s) \<noteq> []"
  "e_email (newErrors s) = None \<longleftrightarrow> trim (email s) \<noteq> [] \<and> validateEmail (email s)"
  by (auto simp: newErrors_def truthy_string_def)

lemma newErrors_cong:
  "feedback s = feedback t \<Longrightarrow> name s = name t \<Longrightarrow> email s = email t \<Longrightarrow> newErrors s = newErrors t"
  by (simp add: newErrors_def)

lemma newErrors_touched [simp]: "newErrors (s\<lparr>touched := t\<rparr>) = newErrors s"
  by (simp add: newErrors_def)

lemma checkFormValidity_cong:
  "selectedRating s = selectedRating t \<Longrightarrow> feedback s = feedback t \<Longrightarrow> name s = name t \<Longrightarrow>
   email s = email t \<Longrightarrow> checkFormValidity s = checkFormValidity t"
  by (simp add: checkFormValidity_def)

lemma passes_cong:
  "selectedRating s = selectedRating t \<Longrightarrow> feedback s = feedback t \<Longrightarrow> name s = name t \<Longrightarrow>
   email s = email t \<Longrightarrow> passes s = passes t"
  using newErrors_cong [of s t] by (simp add: passes_def)

lemma passes_valid: "passes s \<longleftrightarrow> fst (validateForm s) \<and> truthy_rating (selectedRating s)"
  by (simp add: passes_def validateForm_def)

lemma passes_checkFormValidity: "passes s \<longleftrightarrow> checkFormValidity s"
  by (auto simp: passes_valid validateForm_fst newErrors_none checkFormValidity_def truthy_string_def)

lemma passes_rating: "passes s \<Longrightarrow> selectedRating s = Some (the (selectedRating s))"
  by (cases "selectedRating s") (simp_all add: passes_def truthy_rating_def)

lemma passes_email: "passes s \<Longrightarrow> trim (email s) = email s"
  by (simp add: passes_valid validateForm_fst newErrors_none validateEmail_trim)

lemma short_feedback_error:
  assumes "length (trim (feedback s)) < 10"
  shows "e_feedback (newErrors s) =
     Some (if length (trim (feedback s)) = 0 then js ''Feedback is required''
           else js ''Feedback must be at least 10 characters'')"
  using assms by (simp add: newErrors_def truthy_string_def)

lemma short_feedback_invalid:
  "length (trim (feedback s)) < 10 \<Longrightarrow> \<not> checkFormValidity s"
  by (simp add: checkFormValidity_def)

lemma submitToWebhook_start_cases:
  "submitToWebhook_start url data =
     (if truthy_url url
      then Inr \<lparr>req_url = the url, req_method = ''POST'',
                 req_headers = [(''Content-Type'', ''application/json'')], req_body = data\<rparr>
      else Inl configuration_failure)"
  by (simp add: submitToWebhook_start_def truthy_url_def split: option.splits)

lemma handleSubmit_start_cases:
  "handleSubmit_start now s =
     (let s1 = s\<lparr>touched := \<lparr>t_feedback = True, t_name = True, t_email = True\<rparr>,
                  errors := newErrors s\<rparr>
      in if passes s
         then (s1\<lparr>isLoading := True, submitError := []\<rparr>,
               Some \<lparr>d_rating = the (selectedRating s), d_feedback = trim (feedback s),
                     d_name = trim (name s), d_email = trim (email s), d_timestamp = now\<rparr>)
         else (s1, None))"
  by (simp add: handleSubmit_start_def validateForm_def passes_def truthy_rating_def Let_def
      split: option.splits)

lemma handleSubmit_start_payload:
  "snd (handleSubmit_start now s) =
     (if passes s
      then Some \<lparr>d_rating = the (selectedRating s), d_feedback = trim (feedback s),
                  d_name = trim (name s), d_email = trim (email s), d_timestamp = now\<rparr>
      else None)"
  by (simp add: handleSubmit_start_cases Let_def)

lemma handleSubmit_resume_fields [simp]:
  "selectedRating (handleSubmit_resume a s) = selectedRating s"
  "feedback (handleSubmit_resume a s) = feedback s"
  "name (handleSubmit_resume a s) = name s"
  "email (handleSubmit_resume a s) = email s"
  "isFormValid (handleSubmit_resume a s) = isFormValid s"
  "isLoading (handleSubmit_resume a s) = False"
  by (simp_all add: handleSubmit_resume_def Let_def split: sum.splits option.splits)

lemma handleSubmit_resume_failure:
  "\<not> success r \<Longrightarrow>
   handleSubmit_resume (Inr r) s =
     s\<lparr>submitError := (case message r of None \<Rightarrow> js ''Failed to submit feedback''
                        | Some m \<Rightarrow> if m \<noteq> [] then m else js ''Failed to submit feedback''),
       isLoading := False\<rparr>"
  by (simp add: handleSubmit_resume_def truthy_string_def split: option.splits)

lemma failure_message_nonempty:
  "(case message r of None \<Rightarrow> js ''Failed to submit feedback''
    | Some m \<Rightarrow> if m \<noteq> [] then m else js ''Failed to submit feedback'') \<noteq> []"
  by (simp add: js_def split: option.splits)

lemma handleBlur_fields [simp]:
  "selectedRating (handleBlur f s) = selectedRating s"
  "feedback (handleBlur f s) = feedback s"
  "name (handleBlur f s) = name s"
  "email (handleBlur f s) = email s"
  "isFormValid (handleBlur f s) = isFormValid s"
  "isSubmitted (handleBlur f s) = isSubmitted s"
  "isLoading (handleBlur f s) = isLoading s"
  by (simp_all add: handleBlur_def validateForm_def)

lemma handleReset_fields [simp]:
  "selectedRating (handleReset c s) = None"
  "feedback (handleReset c s) = []"
  "name (handleReset c s) = []"
  "email (handleReset c s) = []"
  "isSubmitted (handleReset c s) = False"
  "isLoading (handleReset c s) = isLoading s"
  "submitError (handleReset c s) = []"
  "errors (handleReset c s) = \<lparr>e_feedback = None, e_name = None, e_email = None\<rparr>"
  "touched (handleReset c s) = \<lparr>t_feedback = False, t_name = False, t_email = False\<rparr>"
  by (cases c; simp add: handleReset_def)+

lemma handleReset_isFormValid:
  "isFormValid (handleReset SentimentAnalysisForm s) = False"
  "isFormValid (handleReset Part000 s) = isFormValid s"
  by (simp_all add: handleReset_def)

lemma clickSubmit_fields [simp]:
  "selectedRating (form (clickSubmit c env now w)) = selectedRating (form w)"
  "feedback (form (clickSubmit c env now w)) = feedback (form w)"
  "name (form (clickSubmit c env now w)) = name (form w)"
  "email (form (clickSubmit c env now w)) = email (form w)"
  "isFormValid (form (clickSubmit c env now w)) = isFormValid (form w)"
  by (simp_all add: clickSubmit_def handleSubmit_start_cases Let_def split: sum.splits)

lemma fetchSettled_fields [simp]:
  "selectedRating (form (fetchSettled out w)) = selectedRating (form w)"
  "feedback (form (fetchSettled out w)) = feedback (form w)"
  "name (form (fetchSettled out w)) = name (form w)"
  "email (form (fetchSettled out w)) = email (form w)"
  "isFormValid (form (fetchSettled out w)) = isFormValid (form w)"
  by (simp_all add: fetchSettled_def split: list.splits)

lemma afterRender_fields [simp]:
  "selectedRating (afterRender c p s) = selectedRating s"
  "feedback (afterRender c p s) = feedback s"
  "name (afterRender c p s) = name s"
  "email (afterRender c p s) = email s"
  "isSubmitted (afterRender c p s) = isSubmitted s"
  "isLoading (afterRender c p s) = isLoading s"
  "submitError (afterRender c p s) = submitError s"
  "errors (afterRender c p s) = errors s"
  "touched (afterRender c p s) = touched s"
  by (cases c; simp add: afterRender_def useEffect_validity_def)+

lemma afterRender_idle:
  "selectedRating s = selectedRating p \<Longrightarrow> feedback s = feedback p \<Longrightarrow> name s = name p \<Longrightarrow>
   email s = email p \<Longrightarrow> afterRender c p s = s"
  by (cases c) (simp_all add: afterRender_def useEffect_validity_def)

lemma step_others [simp]:
  "sent (step c env w ev) = sent (dispatch c env w ev)"
  "pending (step c env w ev) = pending (dispatch c env w ev)"
  by (simp_all add: step_def Let_def)

lemma step_fields [simp]:
  "selectedRating (form (step c env w ev)) = selectedRating (form (dispatch c env w ev))"
  "feedback (form (step c env w ev)) = feedback (form (dispatch c env w ev))"
  "name (form (step c env w ev)) = name (form (dispatch c env w ev))"
  "email (form (step c env w ev)) = email (form (dispatch c env w ev))"
  "isSubmitted (form (step c env w ev)) = isSubmitted (form (dispatch c env w ev))"
  "isLoading (form (step c env w ev)) = isLoading (form (dispatch c env w ev))"
  "submitError (form (step c env w ev)) = submitError (form (dispatch c env w ev))"
  "errors (form (step c env w ev)) = errors (form (dispatch c env w ev))"
  "touched (form (step c env w ev)) = touched (form (dispatch c env w ev))"
  by (simp_all add: step_def Let_def)

lemma run_snoc: "run c env (evs @ [ev]) = step c env (run c env evs) ev"
  by (simp add: run_def)

section \<open>Invariants of the machine\<close>

lemma emoji_value_cases: "i < length emojis \<Longrightarrow> emoji_value (emojis ! i) \<in> {1, 2, 3}"
proof -
  assume "i < length emojis"
  then have "i = 0 \<or> i = 1 \<or> i = 2" by (auto simp: emojis_def)
  then show ?thesis by (auto simp: emojis_def)
qed

lemma rating_ok_step: "rating_ok (form w) \<Longrightarrow> rating_ok (form (step c env w ev))"
proof (cases ev)
  case (ClickEmoji i)
  assume "rating_ok (form w)"
  with ClickEmoji emoji_value_cases [of i] show ?thesis
    by (auto simp: rating_ok_def dispatch_def Let_def)
qed (simp_all add: rating_ok_def dispatch_def Let_def)

lemma useEffect_settles:
  assumes "isFormValid p = checkFormValidity p"
    and "selectedRating s = selectedRating p \<Longrightarrow> feedback s = feedback p \<Longrightarrow> name s = name p \<Longrightarrow>
         email s = email p \<Longrightarrow> isFormValid s = isFormValid p"
  shows "isFormValid (useEffect_validity p s) = checkFormValidity (useEffect_validity p s)"
proof (cases "selectedRating s = selectedRating p \<and> feedback s = feedback p \<and> name s = name p \<and>
         email s = email p")
  case True
  with assms(2) have "isFormValid s = isFormValid p" by simp
  moreover from True have "checkFormValidity s = checkFormValidity p"
    by (intro checkFormValidity_cong) simp_all
  moreover from True have "useEffect_validity p s = s" by (simp add: useEffect_validity_def)
  ultimately show ?thesis using assms(1) by simp
next
  case False
  then have "useEffect_validity p s = s\<lparr>isFormValid := checkFormValidity s\<rparr>"
    by (auto simp: useEffect_validity_def)
  moreover have "checkFormValidity (s\<lparr>isFormValid := checkFormValidity s\<rparr>) = checkFormValidity s"
    by (intro checkFormValidity_cong) simp_all
  ultimately show ?thesis by simp
qed

lemma dispatch_isFormValid:
  "ev \<noteq> ClickReset \<Longrightarrow> isFormValid (form (dispatch c env w ev)) = isFormValid (form w)"
  by (cases ev) (simp_all add: dispatch_def Let_def)

lemma settled_step:
  assumes "settled c (form w)"
  shows "settled c (form (step c env w ev))"
proof (cases c)
  case Part000
  have "isFormValid (form (dispatch Part000 env w ev)) = isFormValid (form w)"
    by (cases "ev = ClickReset") (simp_all add: dispatch_isFormValid,
        simp add: dispatch_def Let_def handleReset_isFormValid)
  with assms Part000 show ?thesis
    by (simp add: settled_def step_def Let_def afterRender_def)
next
  case SentimentAnalysisForm
  with assms have before: "isFormValid (form w) = checkFormValidity (form w)"
    by (simp add: settled_def)
  let ?d = "dispatch SentimentAnalysisForm env w ev"
  have "isFormValid (useEffect_validity (form w) (form ?d)) =
      checkFormValidity (useEffect_validity (form w) (form ?d))"
  proof (rule useEffect_settles [OF before])
    assume same: "selectedRating (form ?d) = selectedRating (form w)"
    show "isFormValid (form ?d) = isFormValid (form w)"
    proof (cases "ev = ClickReset")
      case False
      then show ?thesis by (rule dispatch_isFormValid)
    next
      case True
      show ?thesis
      proof (cases "thankYouVisible (form w)")
        case False
        with True show ?thesis by (simp add: dispatch_def)
      next
        case shown: True
        with True same have "selectedRating (form w) = None"
          by (simp add: dispatch_def Let_def)
        then have "\<not> checkFormValidity (form w)"
          by (simp add: checkFormValidity_def truthy_rating_def)
        with before True shown show ?thesis
          by (simp add: dispatch_def Let_def handleReset_isFormValid)
      qed
    qed
  qed
  with SentimentAnalysisForm show ?thesis
    by (simp add: settled_def step_def Let_def afterRender_def)
qed

lemma dispatch_quiet:
  assumes "\<forall>now. ev \<noteq> ClickSubmit now" "\<forall>out. ev \<noteq> FetchSettled out" "ev \<noteq> ClickReset"
  shows "isLoading (form (dispatch c env w ev)) = isLoading (form w)"
    and "isSubmitted (form (dispatch c env w ev)) = isSubmitted (form w)"
    and "sent (dispatch c env w ev) = sent w"
    and "pending (dispatch c env w ev) = pending w"
proof -
  show "isLoading (form (dispatch c env w ev)) = isLoading (form w)"
    using assms by (cases ev) (simp_all add: dispatch_def Let_def)
  show "isSubmitted (form (dispatch c env w ev)) = isSubmitted (form w)"
    using assms by (cases ev) (simp_all add: dispatch_def Let_def)
  show "sent (dispatch c env w ev) = sent w"
    using assms by (cases ev) (simp_all add: dispatch_def Let_def)
  show "pending (dispatch c env w ev) = pending w"
    using assms by (cases ev) (simp_all add: dispatch_def Let_def)
qed

lemma one_in_flight_cong:
  assumes "one_in_flight c env w"
    and "isLoading (form w') = isLoading (form w)" "sent w' = sent w" "pending w' = pending w"
    and "isSubmitted (form w') \<Longrightarrow> isSubmitted (form w)"
  shows "one_in_flight c env w'"
  using assms unfolding one_in_flight_def by auto

lemma one_in_flight_step:
  assumes "one_in_flight c env w"
  shows "one_in_flight c env (step c env w ev)"
proof (cases ev)
  case (ClickSubmit now)
  show ?thesis
  proof (cases "submitEnabled c (form w)")
    case False
    with assms ClickSubmit show ?thesis
      by (simp add: one_in_flight_def dispatch_def)
  next
    case True
    then have idle: "\<not> isLoading (form w)" "\<not> isSubmitted (form w)"
      by (auto simp: submitEnabled_def submitDisabled_def submitVisible_def split: component.splits)
    with assms have none: "pending w = []" by (simp add: one_in_flight_def)
    from assms have url: "sent w \<noteq> [] \<Longrightarrow> truthy_url (WEBHOOK_URL c env)"
      by (simp add: one_in_flight_def)
    have d: "dispatch c env w ev = clickSubmit c env now w"
      using True ClickSubmit by (simp add: dispatch_def)
    show ?thesis
    proof (cases "passes (form w)")
      case False
      then have "clickSubmit c env now w =
          w\<lparr>form := (form w)\<lparr>touched := \<lparr>t_feedback = True, t_name = True, t_email = True\<rparr>,
                            errors := newErrors (form w)\<rparr>\<rparr>"
        by (simp add: clickSubmit_def handleSubmit_start_cases Let_def)
      with assms d show ?thesis by (simp add: one_in_flight_def)
    next
      case valid: True
      show ?thesis
      proof (cases "truthy_url (WEBHOOK_URL c env)")
        case True
        with valid none idle d show ?thesis
          by (simp add: one_in_flight_def clickSubmit_def handleSubmit_start_cases
              submitToWebhook_start_cases Let_def)
      next
        case False
        with url have "sent w = []" by blast
        with False valid none idle d show ?thesis
          by (simp add: one_in_flight_def clickSubmit_def handleSubmit_start_cases
              submitToWebhook_start_cases Let_def handleSubmit_resume_def configuration_failure_def)
      qed
    qed
  qed
next
  case (FetchSettled out)
  show ?thesis
  proof (cases "pending w")
    case Nil
    with assms FetchSettled show ?thesis
      by (simp add: one_in_flight_def dispatch_def fetchSettled_def)
  next
    case (Cons d ds)
    with assms have "ds = []" "\<not> isSubmitted (form w)" by (auto simp: one_in_flight_def)
    with assms Cons FetchSettled show ?thesis
      by (simp add: one_in_flight_def dispatch_def fetchSettled_def handleSubmit_resume_def Let_def)
  qed
next
  case ClickReset
  show ?thesis
  proof (rule one_in_flight_cong [OF assms])
    show "isSubmitted (form (step c env w ev)) \<Longrightarrow> isSubmitted (form w)"
      using ClickReset by (simp add: dispatch_def Let_def split: if_splits)
  qed (simp_all add: ClickReset dispatch_def Let_def)
next
  case (ClickEmoji i)
  then show ?thesis
    by (intro one_in_flight_cong [OF assms]) (simp_all add: dispatch_quiet)
next
  case (ChangeFeedback v)
  then show ?thesis
    by (intro one_in_flight_cong [OF assms]) (simp_all add: dispatch_quiet)
next
  case (ChangeName v)
  then show ?thesis
    by (intro one_in_flight_cong [OF assms]) (simp_all add: dispatch_quiet)
next
  case (ChangeEmail v)
  then show ?thesis
    by (intro one_in_flight_cong [OF assms]) (simp_all add: dispatch_quiet)
next
  case (Blur f)
  then show ?thesis
    by (intro one_in_flight_cong [OF assms]) (simp_all add: dispatch_quiet)
qed

lemma rated_in_flight_step:
  assumes "rated_in_flight w" "one_in_flight c env w"
  shows "rated_in_flight (step c env w ev)"
proof (cases ev)
  case (ClickEmoji i)
  with assms(1) emoji_value_cases [of i] show ?thesis
    by (auto simp: rated_in_flight_def dispatch_def Let_def truthy_rating_def truthy_number_def)
next
  case (ChangeFeedback v)
  with assms(1) show ?thesis by (simp add: rated_in_flight_def dispatch_def Let_def)
next
  case (ChangeName v)
  with assms(1) show ?thesis by (simp add: rated_in_flight_def dispatch_def Let_def)
next
  case (ChangeEmail v)
  with assms(1) show ?thesis by (simp add: rated_in_flight_def dispatch_def Let_def)
next
  case (Blur f)
  with assms(1) show ?thesis by (simp add: rated_in_flight_def dispatch_def Let_def)
next
  case (ClickSubmit now)
  show ?thesis
  proof (cases "passes (form w)")
    case True
    then have "truthy_rating (selectedRating (form w))" by (simp add: passes_def)
    then show ?thesis by (simp add: rated_in_flight_def ClickSubmit dispatch_def Let_def)
  next
    case False
    then have "pending (clickSubmit c env now w) = pending w"
      by (simp add: clickSubmit_def handleSubmit_start_cases Let_def)
    with assms(1) show ?thesis by (simp add: rated_in_flight_def ClickSubmit dispatch_def Let_def)
  qed
next
  case (FetchSettled out)
  from assms(2) have "length (pending w) \<le> 1" by (simp add: one_in_flight_def)
  then have "pending (fetchSettled out w) = []"
    by (cases "pending w") (simp_all add: fetchSettled_def)
  then show ?thesis by (simp add: rated_in_flight_def FetchSettled dispatch_def Let_def)
next
  case ClickReset
  show ?thesis
  proof (cases "thankYouVisible (form w)")
    case True
    with assms(2) have "pending w = []" by (simp add: one_in_flight_def thankYouVisible_def)
    with True show ?thesis by (simp add: rated_in_flight_def ClickReset dispatch_def Let_def)
  next
    case False
    with assms(1) show ?thesis by (simp add: rated_in_flight_def ClickReset dispatch_def Let_def)
  qed
qed

text \<open>Every state that a sequence of events leads to satisfies the four invariants.\<close>

lemma run_invariants:
  "rating_ok (form (run c env evs)) \<and> settled c (form (run c env evs)) \<and>
   one_in_flight c env (run c env evs) \<and> rated_in_flight (run c env evs)"
proof (induction evs rule: rev_induct)
  case Nil
  show ?case
    by (cases c) (simp_all add: run_def initialWorld_def initialState_def rating_ok_def settled_def
        one_in_flight_def rated_in_flight_def checkFormValidity_def truthy_rating_def)
next
  case (snoc ev evs)
  then show ?case
    by (simp only: run_snoc rating_ok_step settled_step one_in_flight_step rated_in_flight_step)
qed

section \<open>The webhook client and single steps of the machine\<close>

lemma submitToWebhook_settle_cases:
  "submitToWebhook_settle (Fulfilled r) =
     (if ok r then \<lparr>success = True, message = Some (js ''Feedback submitted successfully'')\<rparr>
      else \<lparr>success = False,
             message = Some (js ''Webhook error: '' @ toString (status r) @ js '' '' @ statusText r)\<rparr>)"
  "submitToWebhook_settle (Rejected (ErrorObj m)) = \<lparr>success = False, message = Some m\<rparr>"
  "submitToWebhook_settle (Rejected OtherValue) =
     \<lparr>success = False, message = Some (js ''Failed to submit feedback'')\<rparr>"
  by (simp_all add: submitToWebhook_settle_def try_block_def catch_block_def)

lemma submitToWebhook_settle_success:
  "success (submitToWebhook_settle out) \<longleftrightarrow> (\<exists>r. out = Fulfilled r \<and> ok r)"
proof (cases out)
  case (Fulfilled r)
  then show ?thesis by (simp add: submitToWebhook_settle_cases)
next
  case (Rejected e)
  then show ?thesis by (cases e) (simp_all add: submitToWebhook_settle_cases)
qed

lemma submitToWebhook_configured:
  "u \<noteq> [] \<Longrightarrow>
   submitToWebhook (Some u) fetch data net =
     (submitToWebhook_settle
        (fetch \<lparr>req_url = u, req_method = ''POST'',
                 req_headers = [(''Content-Type'', ''application/json'')], req_body = data\<rparr>),
      net @ [\<lparr>req_url = u, req_method = ''POST'',
               req_headers = [(''Content-Type'', ''application/json'')], req_body = data\<rparr>])"
  by (simp add: submitToWebhook_def submitToWebhook_start_def truthy_string_def)

lemma WEBHOOK_URL_unset:
  "\<not> truthy_url (WEBHOOK_URL c None)" "\<not> truthy_url (WEBHOOK_URL c (Some []))"
  by (cases c; simp add: WEBHOOK_URL_def truthy_url_def truthy_string_def)+

lemma no_endpoint_no_traffic_step:
  assumes "\<not> truthy_url (WEBHOOK_URL c env)" "sent w = []" "pending w = []"
  shows "sent (step c env w ev) = [] \<and> pending (step c env w ev) = []"
proof (cases ev)
  case (ClickSubmit now)
  with assms show ?thesis
    by (simp add: dispatch_def Let_def clickSubmit_def handleSubmit_start_cases
        submitToWebhook_start_cases)
next
  case (FetchSettled out)
  with assms show ?thesis by (simp add: dispatch_def Let_def fetchSettled_def)
qed (use assms in \<open>simp_all add: dispatch_def Let_def\<close>)

lemma no_endpoint_no_traffic:
  assumes "\<not> truthy_url (WEBHOOK_URL c env)"
  shows "sent (run c env evs) = [] \<and> pending (run c env evs) = []"
proof (induction evs rule: rev_induct)
  case Nil
  show ?case by (simp add: run_def initialWorld_def)
next
  case (snoc ev evs)
  then have "sent (run c env evs) = []" "pending (run c env evs) = []" by simp_all
  with assms show ?case unfolding run_snoc by (rule no_endpoint_no_traffic_step)
qed

lemma step_disabled_submit:
  "\<not> submitEnabled c (form w) \<Longrightarrow> step c env w (ClickSubmit now) = w"
  by (simp add: step_def dispatch_def afterRender_idle)

lemma not_passes_click:
  assumes "\<not> passes (form w)"
  shows "sent (step c env w (ClickSubmit now)) = sent w"
    and "pending (step c env w (ClickSubmit now)) = pending w"
  using assms
  by (simp_all add: dispatch_def Let_def clickSubmit_def handleSubmit_start_cases)

lemma step_fetchSettled:
  "pending w = d # ds \<Longrightarrow>
   step c env w (FetchSettled out) =
     w\<lparr>form := handleSubmit_resume (Inr (submitToWebhook_settle out)) (form w), pending := ds\<rparr>"
  by (cases c) (simp_all add: step_def dispatch_def fetchSettled_def afterRender_def
      useEffect_validity_def)

lemma step_clickSubmit_sends:
  assumes "submitEnabled c (form w)" "passes (form w)" "truthy_url (WEBHOOK_URL c env)"
  shows "\<exists>req. sent (step c env w (ClickSubmit now)) = sent w @ [req]"
    and "isLoading (form (step c env w (ClickSubmit now)))"
  using assms
  by (auto simp add: dispatch_def Let_def clickSubmit_def handleSubmit_start_cases
      submitToWebhook_start_cases)

section \<open>The concrete inputs, evaluated\<close>

lemmas eval_defs = run_def step_def dispatch_def afterRender_def useEffect_validity_def
  checkFormValidity_def initialWorld_def initialState_def ratingPickerVisible_def
  feedbackVisible_def contactVisible_def submitVisible_def thankYouVisible_def fieldVisible_def
  submitEnabled_def submitDisabled_def truthy_rating_def truthy_number_def truthy_string_def
  emojis_def trim_def isWhiteSpace_def js_def validateEmail_def emailRegex_def at_sign_def
  full_stop_def Let_def

lemma filled_reached: "run c env valid_entry = \<lparr>form = filled c, sent = [], pending = []\<rparr>"
  by (cases c) (simp_all add: valid_entry_def filled_def eval_defs)

lemma filled_facts:
  "trim (feedback (filled c)) = feedback (filled c)" "trim (name (filled c)) = name (filled c)"
  "trim (email (filled c)) = email (filled c)" "validateEmail (email (filled c))"
  "selectedRating (filled c) = Some 3" "\<not> isSubmitted (filled c)" "\<not> isLoading (filled c)"
  "feedback (filled c) = js ''Great service, very helpful''"
  by (simp_all add: filled_def eval_defs)

lemma handleSubmit_start_filled:
  "handleSubmit_start clock (filled c) =
     ((filled c)\<lparr>touched := \<lparr>t_feedback = True, t_name = True, t_email = True\<rparr>,
                 isLoading := True\<rparr>,
      Some payload)"
  by (simp add: handleSubmit_start_def validateForm_def newErrors_def keys_def payload_def
      filled_def eval_defs)

lemma passes_filled: "passes (filled c)"
proof -
  have "snd (handleSubmit_start clock (filled c)) \<noteq> None" by (simp add: handleSubmit_start_filled)
  then show ?thesis by (simp add: handleSubmit_start_payload split: if_splits)
qed

lemma endpoint_truthy: "endpoint \<noteq> []" "WEBHOOK_URL c (Some endpoint) = Some endpoint"
  by (cases c; simp add: endpoint_def js_def WEBHOOK_URL_def truthy_string_def)+

lemma submitEnabled_filled: "submitEnabled c (filled c)"
proof -
  have "submitVisible (filled c)"
    using passes_filled [of c]
    by (simp add: passes_checkFormValidity checkFormValidity_def submitVisible_def filled_facts
        split: if_splits)
  then show ?thesis
    by (cases c) (simp_all add: submitEnabled_def submitDisabled_def filled_def)
qed

lemma in_flight_reached: "run c (Some endpoint) (valid_entry @ [ClickSubmit clock]) = in_flight c"
  by (simp add: run_snoc filled_reached step_def dispatch_def submitEnabled_filled clickSubmit_def
      handleSubmit_start_filled submitToWebhook_start_def endpoint_truthy truthy_string_def
      afterRender_idle in_flight_def request_def)

lemma settle_examples:
  "submitToWebhook_settle (Fulfilled accepted) =
     \<lparr>success = True, message = Some (js ''Feedback submitted successfully'')\<rparr>"
  "submitToWebhook_settle (Fulfilled server_error) =
     \<lparr>success = False, message = Some (js ''Webhook error: 500 Internal Server Error'')\<rparr>"
  by (simp_all add: submitToWebhook_settle_cases ok_def accepted_def server_error_def
      toString.simps digit_def js_def)

lemma thanked_reached:
  "run c (Some endpoint) (valid_entry @ [ClickSubmit clock, FetchSettled (Fulfilled accepted)]) =
   thanked c"
proof -
  have "run c (Some endpoint) (valid_entry @ [ClickSubmit clock, FetchSettled (Fulfilled accepted)]) =
      step c (Some endpoint) (in_flight c) (FetchSettled (Fulfilled accepted))"
    using run_snoc [of c "Some endpoint" "valid_entry @ [ClickSubmit clock]"] in_flight_reached [of c]
    by simp
  also have "\<dots> = thanked c"
    by (simp add: step_fetchSettled [of _ payload "[]"] in_flight_def settle_examples
        handleSubmit_resume_def thanked_def filled_def)
  finally show ?thesis .
qed

lemma short_reached:
  "run c env short_entry =
     \<lparr>form = (filled c)\<lparr>feedback := js ''Too short'', isFormValid := False\<rparr>, sent = [],
      pending = []\<rparr>"
  by (cases c) (simp_all add: short_entry_def filled_def eval_defs)

lemma short_facts:
  "length (trim (js ''Too short'')) = 9"
  "e_name (newErrors ((filled c)\<lparr>feedback := js ''Too short'', isFormValid := False\<rparr>)) = None"
  "e_email (newErrors ((filled c)\<lparr>feedback := js ''Too short'', isFormValid := False\<rparr>)) = None"
  "submitVisible ((filled c)\<lparr>feedback := js ''Too short'', isFormValid := False\<rparr>)"
  by (simp_all add: newErrors_def filled_def eval_defs)

lemma padded_facts:
  "passes padded" "trim (feedback padded) \<noteq> feedback padded" "trim (name padded) \<noteq> name padded"
  "trim (feedback padded) = d_feedback payload" "trim (name padded) = d_name payload"
  "trim (email padded) = d_email payload" "selectedRating padded = Some (d_rating payload)"
  by (simp_all add: passes_def newErrors_def keys_def padded_def payload_def filled_def eval_defs)

lemma padded_email_facts:
  "validateEmail (trim (email padded_email))"
  "e_email (newErrors padded_email) = Some (js ''Please enter a valid email address'')"
  by (simp_all add: newErrors_def padded_email_def filled_def eval_defs)

section \<open>The claims\<close>

text \<open>
  Claim C1. While a submission is in flight (\<open>isLoading\<close> is true) the submit action cannot
  be triggered again: a second click on the submit control issues no second network call.
  In every state that events can lead to, \<open>isLoading\<close> holds exactly while a webhook call is
  pending, at most one call is pending, and while \<open>isLoading\<close> holds the submit button is
  disabled, so that a click on it changes nothing: no request is added. The guard is the
  button's \<open>disabled\<close> attribute; \<open>handleSubmit\<close> itself does not test \<open>isLoading\<close>.
\<close>

theorem submit_not_retriggered_in_flight:
  "isLoading (form (run c env evs)) = (pending (run c env evs) \<noteq> []) \<and>
   length (pending (run c env evs)) \<le> 1 \<and>
   (isLoading (form (run c env evs)) \<longrightarrow>
      \<not> submitEnabled c (form (run c env evs)) \<and>
      step c env (run c env evs) (ClickSubmit now) = run c env evs)"
proof -
  have inv: "one_in_flight c env (run c env evs)" by (simp add: run_invariants)
  have "\<not> submitEnabled c (form (run c env evs))" if "isLoading (form (run c env evs))"
    using that by (cases c) (simp_all add: submitEnabled_def submitDisabled_def)
  with inv show ?thesis
    by (simp add: one_in_flight_def step_disabled_submit)
qed

theorem submit_not_retriggered_in_flight_witness:
  "isLoading (form (run SentimentAnalysisForm (Some endpoint) (valid_entry @ [ClickSubmit clock]))) \<and>
   sent (run SentimentAnalysisForm (Some endpoint) (valid_entry @ [ClickSubmit clock])) = [request] \<and>
   step SentimentAnalysisForm (Some endpoint)
     (run SentimentAnalysisForm (Some endpoint) (valid_entry @ [ClickSubmit clock]))
     (ClickSubmit clock) =
   run SentimentAnalysisForm (Some endpoint) (valid_entry @ [ClickSubmit clock])"
proof -
  have "isLoading (form (run SentimentAnalysisForm (Some endpoint) (valid_entry @ [ClickSubmit clock])))"
    and "sent (run SentimentAnalysisForm (Some endpoint) (valid_entry @ [ClickSubmit clock])) = [request]"
    by (simp_all add: in_flight_reached in_flight_def)
  with submit_not_retriggered_in_flight
    [of SentimentAnalysisForm "Some endpoint" "valid_entry @ [ClickSubmit clock]" clock]
  show ?thesis by simp
qed

text \<open>
  Claim C2, as amended. For every form state whose feedback has trimmed length below 10,
  validation produces a feedback error: "Feedback is required" when the trimmed length is
  0, "Feedback must be at least 10 characters" when it is 1 to 9. In the mounted component
  the submit control is then not enabled, whatever name and email are. In the sibling
  component the button is disabled only while loading, so it may be enabled; a click on it
  then sends nothing and adds no pending call.
\<close>

theorem short_feedback_blocks_submit:
  "(length (trim (feedback s)) < 10 \<longrightarrow>
      e_feedback (newErrors s) =
        Some (if length (trim (feedback s)) = 0 then js ''Feedback is required''
              else js ''Feedback must be at least 10 characters'')) \<and>
   (length (trim (feedback (form (run SentimentAnalysisForm env evs)))) < 10 \<longrightarrow>
      \<not> submitEnabled SentimentAnalysisForm (form (run SentimentAnalysisForm env evs))) \<and>
   (length (trim (feedback (form (run Part000 env evs)))) < 10 \<longrightarrow>
      submitEnabled Part000 (form (run Part000 env evs)) =
        (submitVisible (form (run Part000 env evs)) \<and> \<not> isLoading (form (run Part000 env evs))) \<and>
      sent (step Part000 env (run Part000 env evs) (ClickSubmit now)) = sent (run Part000 env evs) \<and>
      pending (step Part000 env (run Part000 env evs) (ClickSubmit now)) =
        pending (run Part000 env evs))"
proof -
  have mounted: "\<not> submitEnabled SentimentAnalysisForm (form (run SentimentAnalysisForm env evs))"
    if "length (trim (feedback (form (run SentimentAnalysisForm env evs)))) < 10"
  proof -
    have "settled SentimentAnalysisForm (form (run SentimentAnalysisForm env evs))"
      by (simp add: run_invariants)
    with short_feedback_invalid [OF that] show ?thesis
      by (simp add: settled_def submitEnabled_def submitDisabled_def)
  qed
  have sibling:
    "sent (step Part000 env (run Part000 env evs) (ClickSubmit now)) = sent (run Part000 env evs) \<and>
     pending (step Part000 env (run Part000 env evs) (ClickSubmit now)) = pending (run Part000 env evs)"
    if "length (trim (feedback (form (run Part000 env evs)))) < 10"
  proof -
    from short_feedback_error [OF that] have "\<not> passes (form (run Part000 env evs))"
      by (simp add: passes_def keys_def)
    from not_passes_click [OF this] show ?thesis by (rule conjI)
  qed
  from mounted sibling show ?thesis
    by (simp add: short_feedback_error submitEnabled_def submitDisabled_def)
qed

theorem short_feedback_blocks_submit_witness:
  "length (trim (feedback (form (run SentimentAnalysisForm (Some endpoint) short_entry)))) < 10 \<and>
   e_feedback (newErrors (form (run SentimentAnalysisForm (Some endpoint) short_entry))) =
     Some (js ''Feedback must be at least 10 characters'') \<and>
   \<not> submitEnabled SentimentAnalysisForm (form (run SentimentAnalysisForm (Some endpoint) short_entry)) \<and>
   sent (step Part000 (Some endpoint) (run Part000 (Some endpoint) short_entry) (ClickSubmit clock)) = []"
proof -
  have short: "length (trim (feedback (form (run c (Some endpoint) short_entry)))) = 9" for c
    by (simp add: short_reached short_facts)
  have none: "sent (run Part000 (Some endpoint) short_entry) = []"
    by (simp add: short_reached)
  from short_feedback_blocks_submit
    [of "form (run SentimentAnalysisForm (Some endpoint) short_entry)" "Some endpoint"
      short_entry clock] short none
  show ?thesis by simp
qed

text \<open>
  The claim as it was stated fails in the sibling component: with the rating 3, the
  feedback "Too short", and a valid name and email, its submit button is rendered and enabled.
\<close>

theorem short_feedback_enabled_in_sibling:
  "length (trim (feedback (form (run Part000 (Some endpoint) short_entry)))) < 10 \<and>
   e_name (newErrors (form (run Part000 (Some endpoint) short_entry))) = None \<and>
   e_email (newErrors (form (run Part000 (Some endpoint) short_entry))) = None \<and>
   submitVisible (form (run Part000 (Some endpoint) short_entry)) \<and>
   submitEnabled Part000 (form (run Part000 (Some endpoint) short_entry))"
  by (simp add: short_reached short_facts submitEnabled_def submitDisabled_def)
    (simp add: filled_def)

text \<open>
  Claim C3. For every email string, validation reports "Please enter a valid email address"
  exactly when the string has non-zero trimmed length but fails the pattern
  \<open>local-part@domain.tld\<close>; validation accepts "a@b.co" and rejects "a@b", "a b@c.com" and
  "abc.com". The pattern is applied to the string as typed, not to its trimmed form.
\<close>

theorem email_error_iff_pattern_fails:
  "(e_email (newErrors s) = Some (js ''Please enter a valid email address'') \<longleftrightarrow>
      trim (email s) \<noteq> [] \<and> \<not> spec_email_pattern (email s)) \<and>
   e_email (newErrors (s\<lparr>email := js ''a@b.co''\<rparr>)) = None \<and>
   e_email (newErrors (s\<lparr>email := js ''a@b''\<rparr>)) = Some (js ''Please enter a valid email address'') \<and>
   e_email (newErrors (s\<lparr>email := js ''a b@c.com''\<rparr>)) =
     Some (js ''Please enter a valid email address'') \<and>
   e_email (newErrors (s\<lparr>email := js ''abc.com''\<rparr>)) = Some (js ''Please enter a valid email address'')"
proof -
  have general: "e_email (newErrors s) = Some (js ''Please enter a valid email address'') \<longleftrightarrow>
      trim (email s) \<noteq> [] \<and> \<not> spec_email_pattern (email s)"
    using validation_messages_differ(1)
    by (simp add: newErrors_def truthy_string_def validateEmail_spec)
  have accept: "validateEmail (js ''a@b.co'')"
    by (simp add: validateEmail_def emailRegex_def js_def at_sign_def full_stop_def isWhiteSpace_def)
  have reject: "\<not> validateEmail (js ''a@b'')" "\<not> validateEmail (js ''a b@c.com'')"
    "\<not> validateEmail (js ''abc.com'')"
    by (simp_all add: validateEmail_def emailRegex_def js_def at_sign_def full_stop_def
        isWhiteSpace_def)
  have present: "trim (js ''a@b.co'') \<noteq> []" "trim (js ''a@b'') \<noteq> []"
    "trim (js ''a b@c.com'') \<noteq> []" "trim (js ''abc.com'') \<noteq> []"
    by (simp_all add: trim_def js_def isWhiteSpace_def)
  from general accept reject present show ?thesis
    by (simp add: newErrors_def truthy_string_def)
qed

theorem email_error_iff_pattern_fails_witness:
  "e_email (newErrors ((filled SentimentAnalysisForm)\<lparr>email := js ''a@b''\<rparr>)) =
     Some (js ''Please enter a valid email address'') \<and>
   trim (email ((filled SentimentAnalysisForm)\<lparr>email := js ''a@b''\<rparr>)) \<noteq> [] \<and>
   \<not> spec_email_pattern (email ((filled SentimentAnalysisForm)\<lparr>email := js ''a@b''\<rparr>)) \<and>
   e_email (newErrors ((filled SentimentAnalysisForm)\<lparr>email := js ''a@b.co''\<rparr>)) = None"
proof -
  let ?f = "filled SentimentAnalysisForm"
  note c3 = email_error_iff_pattern_fails [of "?f\<lparr>email := js ''a@b''\<rparr>"]
  have u: "?f\<lparr>email := js ''a@b'', email := v\<rparr> = ?f\<lparr>email := v\<rparr>" for v by simp
  from c3 have bad: "e_email (newErrors (?f\<lparr>email := js ''a@b''\<rparr>)) =
      Some (js ''Please enter a valid email address'')"
    unfolding u by blast
  from c3 have good: "e_email (newErrors (?f\<lparr>email := js ''a@b.co''\<rparr>)) = None"
    unfolding u by blast
  from c3 bad have "trim (email (?f\<lparr>email := js ''a@b''\<rparr>)) \<noteq> [] \<and>
      \<not> spec_email_pattern (email (?f\<lparr>email := js ''a@b''\<rparr>))"
    by blast
  with bad good show ?thesis by blast
qed

text \<open>
  Claim C4. With an endpoint configured, the webhook client returns a success result if and
  only if \<open>fetch\<close> fulfils with a response whose status is in the success range 200 to 299
  (\<open>response.ok\<close>); the response body plays no part. A response outside that range gives a
  failure whose message carries the status and the status text, a rejection with an
  \<open>Error\<close> gives a failure with that error's message, and a rejection with anything else
  gives the fallback "Failed to submit feedback".
\<close>

theorem webhook_success_iff_status_ok:
  assumes "u \<noteq> []"
  shows
    "(success (fst (submitToWebhook (Some u) fetch data net)) \<longleftrightarrow>
        (\<exists>r. fetch \<lparr>req_url = u, req_method = ''POST'',
                      req_headers = [(''Content-Type'', ''application/json'')], req_body = data\<rparr>
              = Fulfilled r \<and> 200 \<le> status r \<and> status r \<le> 299)) \<and>
     (\<forall>r. fetch \<lparr>req_url = u, req_method = ''POST'',
                   req_headers = [(''Content-Type'', ''application/json'')], req_body = data\<rparr>
           = Fulfilled r \<and> \<not> (200 \<le> status r \<and> status r \<le> 299) \<longrightarrow>
          fst (submitToWebhook (Some u) fetch data net) =
            \<lparr>success = False,
             message = Some (js ''Webhook error: '' @ toString (status r) @ js '' '' @ statusText r)\<rparr>) \<and>
     (\<forall>m. fetch \<lparr>req_url = u, req_method = ''POST'',
                   req_headers = [(''Content-Type'', ''application/json'')], req_body = data\<rparr>
           = Rejected (ErrorObj m) \<longrightarrow>
          fst (submitToWebhook (Some u) fetch data net) = \<lparr>success = False, message = Some m\<rparr>) \<and>
     (fetch \<lparr>req_url = u, req_method = ''POST'',
              req_headers = [(''Content-Type'', ''application/json'')], req_body = data\<rparr>
        = Rejected OtherValue \<longrightarrow>
      fst (submitToWebhook (Some u) fetch data net) =
        \<lparr>success = False, message = Some (js ''Failed to submit feedback'')\<rparr>) \<and>
     submitToWebhook_settle (Fulfilled (r\<lparr>resp_body := b\<rparr>)) = submitToWebhook_settle (Fulfilled r) \<and>
     snd (submitToWebhook (Some u) fetch data net) =
       net @ [\<lparr>req_url = u, req_method = ''POST'',
                req_headers = [(''Content-Type'', ''application/json'')], req_body = data\<rparr>]"
  using assms
  by (simp add: submitToWebhook_configured submitToWebhook_settle_success
      submitToWebhook_settle_cases ok_def)

theorem webhook_success_iff_status_ok_witness:
  "endpoint \<noteq> [] \<and>
   fst (submitToWebhook (Some endpoint) (\<lambda>req. Fulfilled server_error) payload []) =
     \<lparr>success = False, message = Some (js ''Webhook error: 500 Internal Server Error'')\<rparr> \<and>
   success (fst (submitToWebhook (Some endpoint) (\<lambda>req. Fulfilled accepted) payload [])) \<and>
   fst (submitToWebhook (Some endpoint) (\<lambda>req. Rejected (ErrorObj (js ''Failed to fetch''))) payload []) =
     \<lparr>success = False, message = Some (js ''Failed to fetch'')\<rparr>"
proof -
  have stat: "status server_error = 500" "statusText server_error = js ''Internal Server Error''"
    "status accepted = 200"
    by (simp_all add: server_error_def accepted_def)
  have str: "js ''Webhook error: '' @ toString 500 @ js '' '' @ js ''Internal Server Error'' =
      js ''Webhook error: 500 Internal Server Error''"
    by (simp add: toString.simps digit_def js_def)
  from webhook_success_iff_status_ok
    [OF endpoint_truthy(1), of "\<lambda>req. Fulfilled server_error" payload "[]"] stat str
  have "fst (submitToWebhook (Some endpoint) (\<lambda>req. Fulfilled server_error) payload []) =
     \<lparr>success = False, message = Some (js ''Webhook error: 500 Internal Server Error'')\<rparr>"
    by simp
  moreover from webhook_success_iff_status_ok
    [OF endpoint_truthy(1), of "\<lambda>req. Fulfilled accepted" payload "[]"] stat
  have "success (fst (submitToWebhook (Some endpoint) (\<lambda>req. Fulfilled accepted) payload []))"
    by simp
  moreover from webhook_success_iff_status_ok
    [OF endpoint_truthy(1), of "\<lambda>req. Rejected (ErrorObj (js ''Failed to fetch''))" payload "[]"]
  have "fst (submitToWebhook (Some endpoint) (\<lambda>req. Rejected (ErrorObj (js ''Failed to fetch'')))
      payload []) = \<lparr>success = False, message = Some (js ''Failed to fetch'')\<rparr>"
    by simp
  ultimately show ?thesis using endpoint_truthy(1) by simp
qed

text \<open>
  Claim C5. When no endpoint is configured (the variable is undefined or empty), every
  call of the webhook client returns at once the failure "Webhook configuration error.
  Please try again later." and makes no network call. The component keeps running: no
  sequence of events ever sends a request, and a submission of valid data ends, within
  the click, in the form still shown, not loading, with that message as the submit error.
\<close>

theorem no_endpoint_fails_without_network:
  assumes "url = None \<or> url = Some []"
  shows
    "submitToWebhook url fetch data net =
       (\<lparr>success = False,
         message = Some (js ''Webhook configuration error. Please try again later.'')\<rparr>, net) \<and>
     sent (run c url evs) = [] \<and> pending (run c url evs) = [] \<and>
     (submitEnabled c (form (run c url evs)) \<and> fst (validateForm (form (run c url evs))) \<longrightarrow>
        submitError (form (step c url (run c url evs) (ClickSubmit now))) =
          js ''Webhook configuration error. Please try again later.'' \<and>
        \<not> isLoading (form (step c url (run c url evs) (ClickSubmit now))) \<and>
        \<not> isSubmitted (form (step c url (run c url evs) (ClickSubmit now))))"
proof -
  from assms have falsy: "\<not> truthy_url (WEBHOOK_URL c url)"
    using WEBHOOK_URL_unset by auto
  from assms have "submitToWebhook url fetch data net = (configuration_failure, net)"
    by (auto simp: submitToWebhook_def submitToWebhook_start_def truthy_string_def)
  moreover note no_endpoint_no_traffic [OF falsy, of evs]
  moreover have "submitError (form (step c url (run c url evs) (ClickSubmit now))) =
          js ''Webhook configuration error. Please try again later.'' \<and>
        \<not> isLoading (form (step c url (run c url evs) (ClickSubmit now))) \<and>
        \<not> isSubmitted (form (step c url (run c url evs) (ClickSubmit now)))"
    if "submitEnabled c (form (run c url evs))" "fst (validateForm (form (run c url evs)))"
  proof -
    from that(1) have "truthy_rating (selectedRating (form (run c url evs)))"
      "\<not> isSubmitted (form (run c url evs))"
      by (simp_all add: submitEnabled_def submitVisible_def)
    with that have "passes (form (run c url evs))"
      by (simp add: passes_def validateForm_def)
    with that(1) falsy \<open>\<not> isSubmitted (form (run c url evs))\<close> show ?thesis
      by (simp add: dispatch_def Let_def clickSubmit_def handleSubmit_start_cases
          submitToWebhook_start_cases handleSubmit_resume_def configuration_failure_def
          truthy_string_def js_def)
  qed
  ultimately show ?thesis by (simp add: configuration_failure_def)
qed

theorem no_endpoint_fails_without_network_witness:
  "submitToWebhook None (\<lambda>req. Fulfilled accepted) payload [] =
     (\<lparr>success = False,
       message = Some (js ''Webhook configuration error. Please try again later.'')\<rparr>, []) \<and>
   submitEnabled SentimentAnalysisForm (form (run SentimentAnalysisForm None valid_entry)) \<and>
   fst (validateForm (form (run SentimentAnalysisForm None valid_entry))) \<and>
   submitError (form (step SentimentAnalysisForm None (run SentimentAnalysisForm None valid_entry)
     (ClickSubmit clock))) = js ''Webhook configuration error. Please try again later.'' \<and>
   sent (run SentimentAnalysisForm None (valid_entry @ [ClickSubmit clock])) = []"
proof -
  have en: "submitEnabled SentimentAnalysisForm (form (run SentimentAnalysisForm None valid_entry))"
    by (simp add: filled_reached submitEnabled_filled)
  have ok: "fst (validateForm (form (run SentimentAnalysisForm None valid_entry)))"
    using passes_filled [of SentimentAnalysisForm] by (simp add: filled_reached passes_valid)
  from no_endpoint_fails_without_network
      [of None "\<lambda>req. Fulfilled accepted" payload "[]" SentimentAnalysisForm valid_entry clock]
    no_endpoint_fails_without_network
      [of None "\<lambda>req. Fulfilled accepted" payload "[]" SentimentAnalysisForm
        "valid_entry @ [ClickSubmit clock]" clock] en ok
  show ?thesis by simp
qed

text \<open>
  Claim C6, as amended. For every form state whose rating is unset or one of 1, 2, 3 (every
  state that events lead to is such a state): while the thank-you screen is not shown
  (\<open>isSubmitted\<close> is false) the rating picker is visible, the feedback text area is visible
  iff a rating is set, the contact fields are visible iff a rating is set and the trimmed
  feedback is non-empty, and the submit control is rendered iff a rating is set and
  feedback, name and email are all non-empty after trimming (presence only). Once
  \<open>isSubmitted\<close> is true only the thank-you screen is rendered, and none of the four sections.
\<close>

theorem section_visibility:
  assumes "rating_ok s"
  shows "(ratingPickerVisible s \<longleftrightarrow> \<not> isSubmitted s) \<and>
         (feedbackVisible s \<longleftrightarrow> \<not> isSubmitted s \<and> selectedRating s \<noteq> None) \<and>
         (contactVisible s \<longleftrightarrow>
            \<not> isSubmitted s \<and> selectedRating s \<noteq> None \<and> trim (feedback s) \<noteq> []) \<and>
         (submitVisible s \<longleftrightarrow>
            \<not> isSubmitted s \<and> selectedRating s \<noteq> None \<and> trim (feedback s) \<noteq> [] \<and>
            trim (name s) \<noteq> [] \<and> trim (email s) \<noteq> []) \<and>
         (thankYouVisible s \<longleftrightarrow> isSubmitted s)"
proof -
  from assms have "truthy_rating (selectedRating s) \<longleftrightarrow> selectedRating s \<noteq> None"
    by (auto simp: rating_ok_def truthy_rating_def truthy_number_def)
  then show ?thesis
    by (simp add: ratingPickerVisible_def feedbackVisible_def contactVisible_def submitVisible_def
        thankYouVisible_def truthy_string_def)
qed

theorem section_visibility_witness:
  "rating_ok (filled SentimentAnalysisForm) \<and> ratingPickerVisible (filled SentimentAnalysisForm) \<and>
   feedbackVisible (filled SentimentAnalysisForm) \<and> contactVisible (filled SentimentAnalysisForm) \<and>
   submitVisible (filled SentimentAnalysisForm) \<and> rating_ok initialState \<and>
   ratingPickerVisible initialState \<and> \<not> feedbackVisible initialState"
proof -
  let ?f = "filled SentimentAnalysisForm"
  have ok: "rating_ok ?f" "rating_ok initialState"
    by (simp_all add: rating_ok_def filled_def initialState_def)
  have vals: "\<not> isSubmitted ?f" "selectedRating ?f \<noteq> None" "trim (feedback ?f) \<noteq> []"
    "trim (name ?f) \<noteq> []" "trim (email ?f) \<noteq> []"
    "\<not> isSubmitted initialState" "selectedRating initialState = None"
    by (simp_all add: filled_def initialState_def eval_defs)
  from section_visibility [OF ok(1)] section_visibility [OF ok(2)] ok vals show ?thesis by simp
qed

text \<open>
  The claim as it was stated fails after a successful submission: the rating is still 3,
  yet neither the rating picker nor the feedback text area is rendered.
\<close>

theorem rating_picker_hidden_after_success:
  "selectedRating (form (run SentimentAnalysisForm (Some endpoint)
      (valid_entry @ [ClickSubmit clock, FetchSettled (Fulfilled accepted)]))) = Some 3 \<and>
   \<not> ratingPickerVisible (form (run SentimentAnalysisForm (Some endpoint)
      (valid_entry @ [ClickSubmit clock, FetchSettled (Fulfilled accepted)]))) \<and>
   \<not> feedbackVisible (form (run SentimentAnalysisForm (Some endpoint)
      (valid_entry @ [ClickSubmit clock, FetchSettled (Fulfilled accepted)])))"
  by (simp add: thanked_reached thanked_def ratingPickerVisible_def feedbackVisible_def)
    (simp add: filled_def)

text \<open>
  Claim C7. When the pending webhook call resolves with a failure (for example HTTP 500),
  the form shows a non-empty submit error, which for an HTTP failure is "Webhook error: ",
  the status, a space and the status text; it is no longer loading and not submitted; the
  rating, feedback, name and email are what they were; the form is still rendered and the
  feedback field still takes input; and if the data still pass validation the submit control
  is enabled and a click on it sends one more request.
\<close>

theorem webhook_failure_preserves_input:
  assumes "pending (run c env evs) \<noteq> []" and "\<not> success (submitToWebhook_settle out)"
  shows
    "submitError (form (step c env (run c env evs) (FetchSettled out))) \<noteq> [] \<and>
     (\<forall>r. out = Fulfilled r \<longrightarrow>
        submitError (form (step c env (run c env evs) (FetchSettled out))) =
          js ''Webhook error: '' @ toString (status r) @ js '' '' @ statusText r \<and>
        sublist (toString (status r))
          (submitError (form (step c env (run c env evs) (FetchSettled out))))) \<and>
     \<not> isLoading (form (step c env (run c env evs) (FetchSettled out))) \<and>
     \<not> isSubmitted (form (step c env (run c env evs) (FetchSettled out))) \<and>
     pending (step c env (run c env evs) (FetchSettled out)) = [] \<and>
     selectedRating (form (step c env (run c env evs) (FetchSettled out))) =
       selectedRating (form (run c env evs)) \<and>
     feedback (form (step c env (run c env evs) (FetchSettled out))) = feedback (form (run c env evs)) \<and>
     name (form (step c env (run c env evs) (FetchSettled out))) = name (form (run c env evs)) \<and>
     email (form (step c env (run c env evs) (FetchSettled out))) = email (form (run c env evs)) \<and>
     ratingPickerVisible (form (step c env (run c env evs) (FetchSettled out))) \<and>
     feedbackVisible (form (step c env (run c env evs) (FetchSettled out))) \<and>
     feedback (form (step c env (step c env (run c env evs) (FetchSettled out)) (ChangeFeedback v))) = v \<and>
     (fst (validateForm (form (run c env evs))) \<longrightarrow>
        submitEnabled c (form (step c env (run c env evs) (FetchSettled out))) \<and>
        length (sent (step c env (step c env (run c env evs) (FetchSettled out)) (ClickSubmit now))) =
          Suc (length (sent (run c env evs))) \<and>
        isLoading (form (step c env (step c env (run c env evs) (FetchSettled out)) (ClickSubmit now))))"
proof -
  define w where "w = run c env evs"
  define s' where "s' = (form w)\<lparr>submitError :=
      (case message (submitToWebhook_settle out) of None \<Rightarrow> js ''Failed to submit feedback''
       | Some m \<Rightarrow> if m \<noteq> [] then m else js ''Failed to submit feedback''), isLoading := False\<rparr>"
  have flight: "one_in_flight c env w" and rated: "rated_in_flight w" and settled: "settled c (form w)"
    by (simp_all add: w_def run_invariants)
  from assms(1) obtain d ds where p: "pending w = d # ds"
    by (cases "pending w") (simp_all add: w_def)
  with flight have ds: "ds = []" and idle: "\<not> isSubmitted (form w)"
    and url: "truthy_url (WEBHOOK_URL c env)"
    by (auto simp: one_in_flight_def)
  from p rated have rating: "truthy_rating (selectedRating (form w))"
    by (simp add: rated_in_flight_def)
  have w': "step c env w (FetchSettled out) = w\<lparr>form := s', pending := []\<rparr>"
    by (simp add: step_fetchSettled [OF p] handleSubmit_resume_failure [OF assms(2)] ds s'_def)
  have msg: "submitError s' \<noteq> []"
    unfolding s'_def using failure_message_nonempty [of "submitToWebhook_settle out"] by simp
  have http: "submitError s' = js ''Webhook error: '' @ toString (status r) @ js '' '' @ statusText r \<and>
      sublist (toString (status r)) (submitError s')" if "out = Fulfilled r" for r
  proof -
    from that assms(2) have "\<not> ok r" by (auto simp: submitToWebhook_settle_cases)
    with that have "submitError s' =
        js ''Webhook error: '' @ toString (status r) @ js '' '' @ statusText r"
      by (simp add: s'_def submitToWebhook_settle_cases js_def)
    then show ?thesis by (simp add: sublist_def) blast
  qed
  have vis: "ratingPickerVisible s'" "feedbackVisible s'"
    using idle rating by (simp_all add: s'_def ratingPickerVisible_def feedbackVisible_def)
  have edit: "feedback (form (step c env (w\<lparr>form := s', pending := []\<rparr>) (ChangeFeedback v))) = v"
    using vis(2) by (simp add: dispatch_def Let_def)
  have retry: "submitEnabled c s' \<and>
      length (sent (step c env (w\<lparr>form := s', pending := []\<rparr>) (ClickSubmit now))) =
        Suc (length (sent w)) \<and>
      isLoading (form (step c env (w\<lparr>form := s', pending := []\<rparr>) (ClickSubmit now)))"
    if valid: "fst (validateForm (form w))"
  proof -
    from valid rating have ok: "passes (form w)" by (simp add: passes_valid)
    have "passes s' = passes (form w)" by (rule passes_cong) (simp_all add: s'_def)
    with ok have ok': "passes s'" by simp
    from ok have "checkFormValidity (form w)" by (simp add: passes_checkFormValidity)
    with settled have valid_flag: "c = SentimentAnalysisForm \<Longrightarrow> isFormValid s'"
      by (simp add: settled_def s'_def)
    from ok have "submitVisible (form w)"
      using idle by (simp add: submitVisible_def passes_checkFormValidity checkFormValidity_def
          split: if_splits)
    then have "submitVisible s'" by (simp add: submitVisible_def s'_def)
    with valid_flag have en: "submitEnabled c s'"
      by (cases c) (simp_all add: submitEnabled_def submitDisabled_def s'_def)
    from step_clickSubmit_sends [of c "w\<lparr>form := s', pending := []\<rparr>" env now] en ok' url
    show ?thesis by auto
  qed
  from msg http vis edit retry idle show ?thesis
    unfolding w_def [symmetric] w' by (simp add: s'_def)
qed

theorem webhook_failure_preserves_input_witness:
  "pending (run SentimentAnalysisForm (Some endpoint) (valid_entry @ [ClickSubmit clock])) \<noteq> [] \<and>
   \<not> success (submitToWebhook_settle (Fulfilled server_error)) \<and>
   submitError (form (step SentimentAnalysisForm (Some endpoint)
     (run SentimentAnalysisForm (Some endpoint) (valid_entry @ [ClickSubmit clock]))
     (FetchSettled (Fulfilled server_error)))) = js ''Webhook error: 500 Internal Server Error'' \<and>
   feedback (form (step SentimentAnalysisForm (Some endpoint)
     (run SentimentAnalysisForm (Some endpoint) (valid_entry @ [ClickSubmit clock]))
     (FetchSettled (Fulfilled server_error)))) = js ''Great service, very helpful'' \<and>
   fst (validateForm (form (run SentimentAnalysisForm (Some endpoint) (valid_entry @ [ClickSubmit clock])))) \<and>
   length (sent (step SentimentAnalysisForm (Some endpoint)
     (step SentimentAnalysisForm (Some endpoint)
       (run SentimentAnalysisForm (Some endpoint) (valid_entry @ [ClickSubmit clock]))
       (FetchSettled (Fulfilled server_error)))
     (ClickSubmit clock))) = 2"
proof -
  let ?w = "run SentimentAnalysisForm (Some endpoint) (valid_entry @ [ClickSubmit clock])"
  let ?w' = "step SentimentAnalysisForm (Some endpoint) ?w (FetchSettled (Fulfilled server_error))"
  have p: "pending ?w \<noteq> []" by (simp add: in_flight_reached in_flight_def)
  have f: "\<not> success (submitToWebhook_settle (Fulfilled server_error))"
    by (simp add: settle_examples)
  have "passes (form ?w) = passes (filled SentimentAnalysisForm)"
    by (rule passes_cong) (simp_all add: in_flight_reached in_flight_def)
  with passes_filled have v: "fst (validateForm (form ?w))" by (simp add: passes_valid)
  have str: "js ''Webhook error: '' @ toString (status server_error) @ js '' '' @
      statusText server_error = js ''Webhook error: 500 Internal Server Error''"
    by (simp add: server_error_def toString.simps digit_def js_def)
  have w: "feedback (form ?w) = js ''Great service, very helpful''" "length (sent ?w) = 1"
    by (simp_all add: in_flight_reached in_flight_def filled_def)
  note c7 = webhook_failure_preserves_input [OF p f, of "[]" clock]
  from c7 have "submitError (form ?w') = js ''Webhook error: '' @ toString (status server_error) @
      js '' '' @ statusText server_error"
    by blast
  with str have m: "submitError (form ?w') = js ''Webhook error: 500 Internal Server Error''"
    by simp
  from c7 have "feedback (form ?w') = feedback (form ?w)" by blast
  with w(1) have k: "feedback (form ?w') = js ''Great service, very helpful''" by simp
  from c7 v have "length (sent (step SentimentAnalysisForm (Some endpoint) ?w' (ClickSubmit clock))) =
      Suc (length (sent ?w))"
    by blast
  with w(2) have r: "length (sent (step SentimentAnalysisForm (Some endpoint) ?w' (ClickSubmit clock))) = 2"
    by simp
  from p f m k v r show ?thesis by blast
qed

text \<open>
  Claim C8. Reset returns every field to its initial value: rating unset, feedback, name and
  email empty, all touched flags false, errors and failure message cleared, the submitted
  flag false, so that only the rating picker is visible. After a succeeded submission, a
  click on "Submit Another Response" leaves exactly the initial state.
\<close>

theorem reset_returns_to_initial:
  "selectedRating (handleReset c s) = None \<and> feedback (handleReset c s) = [] \<and>
   name (handleReset c s) = [] \<and> email (handleReset c s) = [] \<and>
   touched (handleReset c s) = \<lparr>t_feedback = False, t_name = False, t_email = False\<rparr> \<and>
   errors (handleReset c s) = \<lparr>e_feedback = None, e_name = None, e_email = None\<rparr> \<and>
   submitError (handleReset c s) = [] \<and> isSubmitted (handleReset c s) = False \<and>
   ratingPickerVisible (handleReset c s) \<and> \<not> feedbackVisible (handleReset c s) \<and>
   \<not> contactVisible (handleReset c s) \<and> \<not> submitVisible (handleReset c s) \<and>
   \<not> thankYouVisible (handleReset c s) \<and>
   (isSubmitted (form (run c env evs)) \<longrightarrow>
      form (step c env (run c env evs) ClickReset) = initialState)"
proof -
  have "form (step c env (run c env evs) ClickReset) = initialState"
    if "isSubmitted (form (run c env evs))"
  proof -
    have "one_in_flight c env (run c env evs)" "settled c (form (run c env evs))"
      by (simp_all add: run_invariants)
    with that have "\<not> isLoading (form (run c env evs))"
      and "c = Part000 \<Longrightarrow> \<not> isFormValid (form (run c env evs))"
      by (simp_all add: one_in_flight_def settled_def)
    then have "handleReset c (form (run c env evs)) = initialState"
      by (cases c) (simp_all add: handleReset_def initialState_def)
    with that show ?thesis
      by (cases c) (simp_all add: step_def dispatch_def Let_def thankYouVisible_def afterRender_def
          useEffect_validity_def initialState_def checkFormValidity_def truthy_rating_def)
  qed
  then show ?thesis
    by (simp add: ratingPickerVisible_def feedbackVisible_def contactVisible_def
        submitVisible_def thankYouVisible_def truthy_rating_def)
qed

theorem reset_returns_to_initial_witness:
  "isSubmitted (form (run SentimentAnalysisForm (Some endpoint)
      (valid_entry @ [ClickSubmit clock, FetchSettled (Fulfilled accepted)]))) \<and>
   form (run SentimentAnalysisForm (Some endpoint)
      (valid_entry @ [ClickSubmit clock, FetchSettled (Fulfilled accepted), ClickReset])) =
     initialState \<and>
   ratingPickerVisible initialState \<and> \<not> feedbackVisible initialState"
proof -
  let ?evs = "valid_entry @ [ClickSubmit clock, FetchSettled (Fulfilled accepted)]"
  have s: "isSubmitted (form (run SentimentAnalysisForm (Some endpoint) ?evs))"
    by (simp add: thanked_reached thanked_def)
  have r: "run SentimentAnalysisForm (Some endpoint) (?evs @ [ClickReset]) =
      step SentimentAnalysisForm (Some endpoint) (run SentimentAnalysisForm (Some endpoint) ?evs)
        ClickReset"
    by (rule run_snoc)
  have i: "handleReset SentimentAnalysisForm initialState = initialState"
    by (simp add: handleReset_def initialState_def)
  from reset_returns_to_initial [of SentimentAnalysisForm initialState "Some endpoint" ?evs] s r i
  show ?thesis by simp
qed

text \<open>
  Claim C9. For every form state (with a rating that is unset or one of 1, 2, 3), the
  submit-enabled determination \<open>checkFormValidity\<close> does not depend on the touched flags
  and agrees with full validation: it is true if and only if a rating is set and
  \<open>validateForm\<close> reports no error for feedback, name or email.
\<close>

theorem checkFormValidity_agrees_with_validateForm:
  assumes "rating_ok s"
  shows "(checkFormValidity s \<longleftrightarrow> selectedRating s \<noteq> None \<and> fst (validateForm s)) \<and>
         (fst (validateForm s) \<longleftrightarrow>
            e_feedback (newErrors s) = None \<and> e_name (newErrors s) = None \<and>
            e_email (newErrors s) = None) \<and>
         checkFormValidity (s\<lparr>touched := t\<rparr>) = checkFormValidity s"
proof -
  from assms have "truthy_rating (selectedRating s) \<longleftrightarrow> selectedRating s \<noteq> None"
    by (auto simp: rating_ok_def truthy_rating_def truthy_number_def)
  then have "checkFormValidity s \<longleftrightarrow> selectedRating s \<noteq> None \<and> fst (validateForm s)"
    by (auto simp: checkFormValidity_def validateForm_fst newErrors_none truthy_string_def)
  moreover have "checkFormValidity (s\<lparr>touched := t\<rparr>) = checkFormValidity s"
    by (simp add: checkFormValidity_def)
  ultimately show ?thesis by (simp add: validateForm_fst)
qed

theorem checkFormValidity_agrees_with_validateForm_witness:
  "rating_ok (filled SentimentAnalysisForm) \<and> checkFormValidity (filled SentimentAnalysisForm) \<and>
   fst (validateForm (filled SentimentAnalysisForm)) \<and>
   checkFormValidity
     ((filled SentimentAnalysisForm)\<lparr>touched := \<lparr>t_feedback = True, t_name = False, t_email = True\<rparr>\<rparr>)"
proof -
  let ?f = "filled SentimentAnalysisForm"
  have ok: "rating_ok ?f" by (simp add: rating_ok_def filled_def)
  have v: "fst (validateForm ?f)" using passes_filled [of SentimentAnalysisForm] by (simp add: passes_valid)
  have r: "selectedRating ?f \<noteq> None" by (simp add: filled_def)
  from checkFormValidity_agrees_with_validateForm
    [OF ok, of "\<lparr>t_feedback = True, t_name = False, t_email = True\<rparr>"] ok v r
  show ?thesis by simp
qed

text \<open>
  Claim C10. \<open>handleSubmit\<close> builds a payload exactly when validation passes and a rating
  is set, and the payload POSTed to the webhook then holds the selected rating, the
  feedback, name and email with leading and trailing whitespace removed, and the timestamp
  taken at the click (the string \<open>new Date().toISOString()\<close> returned). The posted feedback
  and name can differ from what was typed. Validation looks at the email as typed: an
  address with a leading space is rejected although its trimmed form matches, so the
  email of a submission that passed is posted unchanged.
\<close>

theorem payload_is_trimmed:
  "(snd (handleSubmit_start now s) \<noteq> None \<longleftrightarrow>
      fst (validateForm s) \<and> truthy_rating (selectedRating s)) \<and>
   (\<forall>d. snd (handleSubmit_start now s) = Some d \<longrightarrow>
      selectedRating s = Some (d_rating d) \<and> d_feedback d = trim (feedback s) \<and>
      d_name d = trim (name s) \<and> d_email d = trim (email s) \<and> trim (email s) = email s \<and>
      d_timestamp d = now) \<and>
   (\<forall>d u. snd (handleSubmit_start now (form w)) = Some d \<and> submitEnabled c (form w) \<and>
      WEBHOOK_URL c env = Some u \<and> u \<noteq> [] \<longrightarrow>
      sent (step c env w (ClickSubmit now)) =
        sent w @ [\<lparr>req_url = u, req_method = ''POST'',
                   req_headers = [(''Content-Type'', ''application/json'')], req_body = d\<rparr>]) \<and>
   (\<exists>s' d. snd (handleSubmit_start now s') = Some d \<and> d_feedback d \<noteq> feedback s' \<and>
      d_name d \<noteq> name s') \<and>
   (\<exists>s'. validateEmail (trim (email s')) \<and>
      e_email (newErrors s') = Some (js ''Please enter a valid email address''))"
proof (intro conjI allI impI)
  show "snd (handleSubmit_start now s) \<noteq> None \<longleftrightarrow>
      fst (validateForm s) \<and> truthy_rating (selectedRating s)"
    by (simp add: handleSubmit_start_payload passes_valid)
next
  fix d
  assume d: "snd (handleSubmit_start now s) = Some d"
  then have p: "passes s" by (simp add: handleSubmit_start_payload split: if_splits)
  with d have eq: "d = \<lparr>d_rating = the (selectedRating s), d_feedback = trim (feedback s),
      d_name = trim (name s), d_email = trim (email s), d_timestamp = now\<rparr>"
    by (simp add: handleSubmit_start_payload)
  from p passes_rating eq show "selectedRating s = Some (d_rating d)" by simp
  from eq show "d_feedback d = trim (feedback s)" "d_name d = trim (name s)"
    "d_email d = trim (email s)" "d_timestamp d = now" by simp_all
  from p show "trim (email s) = email s" by (rule passes_email)
next
  fix d u
  assume a: "snd (handleSubmit_start now (form w)) = Some d \<and> submitEnabled c (form w) \<and>
      WEBHOOK_URL c env = Some u \<and> u \<noteq> []"
  then have p: "passes (form w)" by (simp add: handleSubmit_start_payload split: if_splits)
  with a show "sent (step c env w (ClickSubmit now)) =
      sent w @ [\<lparr>req_url = u, req_method = ''POST'',
                 req_headers = [(''Content-Type'', ''application/json'')], req_body = d\<rparr>]"
    by (simp add: dispatch_def clickSubmit_def handleSubmit_start_cases Let_def
        submitToWebhook_start_def truthy_string_def)
next
  have "snd (handleSubmit_start now padded) = Some \<lparr>d_rating = the (selectedRating padded),
      d_feedback = trim (feedback padded), d_name = trim (name padded),
      d_email = trim (email padded), d_timestamp = now\<rparr>"
    by (simp add: handleSubmit_start_payload padded_facts(1))
  with padded_facts(2,3)
  show "\<exists>s' d. snd (handleSubmit_start now s') = Some d \<and> d_feedback d \<noteq> feedback s' \<and>
      d_name d \<noteq> name s'"
    by (intro exI [of _ padded] exI [of _ "\<lparr>d_rating = the (selectedRating padded),
      d_feedback = trim (feedback padded), d_name = trim (name padded),
      d_email = trim (email padded), d_timestamp = now\<rparr>"]) simp
next
  from padded_email_facts
  show "\<exists>s'. validateEmail (trim (email s')) \<and>
      e_email (newErrors s') = Some (js ''Please enter a valid email address'')"
    by blast
qed

theorem payload_is_trimmed_witness:
  "snd (handleSubmit_start clock padded) = Some payload \<and>
   fst (validateForm padded) \<and>
   d_feedback payload = js ''Great service, very helpful'' \<and>
   feedback padded = js ''  Great service, very helpful '' \<and>
   d_feedback payload \<noteq> feedback padded \<and>
   sent (step SentimentAnalysisForm (Some endpoint)
          \<lparr>form = filled SentimentAnalysisForm, sent = [], pending = []\<rparr> (ClickSubmit clock)) =
     [request]"
proof -
  let ?f = "filled SentimentAnalysisForm"
  have p: "snd (handleSubmit_start clock padded) = Some payload"
    by (simp add: handleSubmit_start_payload padded_facts payload_def)
  have f: "snd (handleSubmit_start clock ?f) = Some payload"
    by (simp add: handleSubmit_start_filled)
  have raw: "d_feedback payload = js ''Great service, very helpful''"
    "feedback padded = js ''  Great service, very helpful ''"
    by (simp_all add: payload_def padded_def)
  note c10 = payload_is_trimmed [of clock padded "\<lparr>form = ?f, sent = [], pending = []\<rparr>"
      SentimentAnalysisForm "Some endpoint"]
  from c10 p have v: "fst (validateForm padded)" by simp
  from c10 p have "d_feedback payload = trim (feedback padded)" by simp
  with padded_facts(2) have n: "d_feedback payload \<noteq> feedback padded" by simp
  from c10 f submitEnabled_filled [of SentimentAnalysisForm] endpoint_truthy
  have "sent (step SentimentAnalysisForm (Some endpoint) \<lparr>form = ?f, sent = [], pending = []\<rparr>
      (ClickSubmit clock)) = [request]"
    by (simp add: request_def)
  with p v raw n show ?thesis by simp
qed

end
